theory Spec2Isabelle
  imports
    Complex_Main
    "HOL-Library.Sublist"
    "HOL-Library.Char_ord"
    "HOL-Library.List_Lexorder"
    "HOL-Library.Product_Lexorder"
    "HOL-Library.Multiset"
begin

section \<open>Pulls and impacts: the table behind the plots\<close>

text \<open>
  The script \<^verbatim>\<open>scripts/combine/pullsAndImpacts.py\<close> reads the impacts, pulls and
  constraints of a fit, builds a pandas table from them (\<^verbatim>\<open>readFitInfoFromFile\<close>),
  merges it with the table of a reference fit, sorts it and cuts it to the rows to plot
  (\<^verbatim>\<open>producePlots\<close>). This theory embeds that table pipeline. The readers of the
  fit result, the regular-expression engine and the plotting library are not part of the
  script: what they return is a parameter of the model.
\<close>

subsection \<open>Double-precision values\<close>

text \<open>
  A numpy \<^verbatim>\<open>float64\<close> is a finite number, one of the two infinities, or NaN. A finite
  value is the real number it stands for. The arithmetic on arrays computes the exact
  result of two finite values and rounds it to a double: the rounding \<open>rnd\<close> is a
  parameter of every operation, and it may return an infinity where the exact result is
  out of range. Nothing is assumed of it, so what is proved holds for the rounding of the
  machine. The sign of zero is not represented. The special values follow IEEE 754 as
  numpy applies it to arrays (no exception, the result is an infinity or NaN).
\<close>

datatype float64 = Fin real | PInf | NInf | NaN

fun fabs :: "float64 \<Rightarrow> float64" where
  "fabs (Fin x) = Fin \<bar>x\<bar>"
| "fabs PInf = PInf"
| "fabs NInf = PInf"
| "fabs NaN = NaN"

fun fneg :: "float64 \<Rightarrow> float64" where
  "fneg (Fin x) = Fin (- x)"
| "fneg PInf = NInf"
| "fneg NInf = PInf"
| "fneg NaN = NaN"

fun fadd :: "(real \<Rightarrow> float64) \<Rightarrow> float64 \<Rightarrow> float64 \<Rightarrow> float64" where
  "fadd rnd NaN _ = NaN"
| "fadd rnd _ NaN = NaN"
| "fadd rnd (Fin x) (Fin y) = rnd (x + y)"
| "fadd rnd PInf NInf = NaN"
| "fadd rnd NInf PInf = NaN"
| "fadd rnd PInf _ = PInf"
| "fadd rnd _ PInf = PInf"
| "fadd rnd NInf _ = NInf"
| "fadd rnd _ NInf = NInf"

definition fsub :: "(real \<Rightarrow> float64) \<Rightarrow> float64 \<Rightarrow> float64 \<Rightarrow> float64" where
  "fsub rnd a b = fadd rnd a (fneg b)"

text \<open>The sign of a value that is not NaN: \<open>-1\<close>, \<open>0\<close> or \<open>1\<close>.\<close>

fun fsgn :: "float64 \<Rightarrow> int" where
  "fsgn (Fin x) = (if x < 0 then - 1 else if x = 0 then 0 else 1)"
| "fsgn PInf = 1"
| "fsgn NInf = - 1"
| "fsgn NaN = 0"

definition inf_of_sign :: "int \<Rightarrow> float64" where
  "inf_of_sign s = (if s < 0 then NInf else if s = 0 then NaN else PInf)"

fun fmul :: "(real \<Rightarrow> float64) \<Rightarrow> float64 \<Rightarrow> float64 \<Rightarrow> float64" where
  "fmul rnd NaN _ = NaN"
| "fmul rnd _ NaN = NaN"
| "fmul rnd (Fin x) (Fin y) = rnd (x * y)"
| "fmul rnd a b = inf_of_sign (fsgn a * fsgn b)"

text \<open>
  Division of arrays: a finite non-zero value over zero is an infinity of its sign,
  zero over zero and infinity over infinity are NaN, a finite value over an infinity is
  zero, and the quotient of two finite values is rounded.
\<close>

fun fdiv :: "(real \<Rightarrow> float64) \<Rightarrow> float64 \<Rightarrow> float64 \<Rightarrow> float64" where
  "fdiv rnd NaN _ = NaN"
| "fdiv rnd _ NaN = NaN"
| "fdiv rnd (Fin x) (Fin y) = (if y = 0 then inf_of_sign (fsgn (Fin x)) else rnd (x / y))"
| "fdiv rnd (Fin x) _ = Fin 0"
| "fdiv rnd a (Fin y) = inf_of_sign (fsgn a * (if y < 0 then - 1 else 1))"
| "fdiv rnd _ _ = NaN"

text \<open>\<^verbatim>\<open>x**2\<close> on an array is \<open>x * x\<close>.\<close>

definition fsquare :: "(real \<Rightarrow> float64) \<Rightarrow> float64 \<Rightarrow> float64" where
  "fsquare rnd a = fmul rnd a a"

text \<open>
  \<^verbatim>\<open>x**0.5\<close> on an array is the square root: numpy evaluates the exponent 0.5 as
  \<^verbatim>\<open>sqrt\<close>, which is NaN for every negative value, \<open>-\<infinity>\<close> included, and \<open>+\<infinity>\<close> for
  \<open>+\<infinity>\<close>.
\<close>

fun fpow_half :: "(real \<Rightarrow> float64) \<Rightarrow> float64 \<Rightarrow> float64" where
  "fpow_half rnd (Fin x) = (if x < 0 then NaN else rnd (sqrt x))"
| "fpow_half rnd PInf = PInf"
| "fpow_half rnd NInf = NaN"
| "fpow_half rnd NaN = NaN"

text \<open>\<^verbatim>\<open>x > 0.\<close>, false for NaN.\<close>

fun fpositive :: "float64 \<Rightarrow> bool" where
  "fpositive (Fin x) = (0 < x)"
| "fpositive PInf = True"
| "fpositive NInf = False"
| "fpositive NaN = False"

subsection \<open>Tables\<close>

text \<open>
  A cell of a table is a number or a string; a missing value is the number NaN, as in
  pandas. A table has its column names in order and its rows, each a map from the column
  name to the cell.
\<close>

datatype cell = Num float64 | Str string

type_synonym row = "string \<rightharpoonup> cell"

record dataframe =
  columns :: "string list"
  rows :: "row list"

datatype error =
    ValueError
  | KeyError string
  | TypeError
  | IndexError
  | ZeroDivisionError
  | NotImplementedError "string list"

text \<open>The number in a numeric column of a row, the string in a string column.\<close>

definition numv :: "row \<Rightarrow> string \<Rightarrow> float64" where
  "numv r c = (case r c of Some (Num x) \<Rightarrow> x | _ \<Rightarrow> NaN)"

definition strv :: "row \<Rightarrow> string \<Rightarrow> string" where
  "strv r c = (case r c of Some (Str s) \<Rightarrow> s | _ \<Rightarrow> [])"

text \<open>\<^verbatim>\<open>df[c] = ...\<close> keeps the place of a column that exists and appends a new one.\<close>

definition add_column :: "string \<Rightarrow> string list \<Rightarrow> string list" where
  "add_column c cs = (if c \<in> set cs then cs else cs @ [c])"

text \<open>\<^verbatim>\<open>df[c] = f(df[...])\<close>: a column computed row by row from the other columns.\<close>

definition assign :: "string \<Rightarrow> (row \<Rightarrow> cell) \<Rightarrow> dataframe \<Rightarrow> dataframe" where
  "assign c f df =
     \<lparr>columns = add_column c (columns df), rows = map (\<lambda>r. r(c \<mapsto> f r)) (rows df)\<rparr>"

text \<open>
  \<^verbatim>\<open>df[c] = values\<close> for a list or an array: pandas raises \<^verbatim>\<open>ValueError\<close> when the
  length is not the number of rows.
\<close>

definition set_column :: "string \<Rightarrow> cell list \<Rightarrow> dataframe \<Rightarrow> error + dataframe" where
  "set_column c vs df =
     (if length vs \<noteq> length (rows df) then Inl ValueError
      else Inr \<lparr>columns = add_column c (columns df),
                rows = map (\<lambda>(r, v). r(c \<mapsto> v)) (zip (rows df) vs)\<rparr>)"

definition bind :: "error + 'a \<Rightarrow> ('a \<Rightarrow> error + 'b) \<Rightarrow> error + 'b" where
  "bind m f = (case m of Inl e \<Rightarrow> Inl e | Inr x \<Rightarrow> f x)"

subsection \<open>Strings and the regular-expression engine\<close>

text \<open>
  \<^verbatim>\<open>s.replace(old, "")\<close>: every occurrence of \<open>old\<close>, found from the left without
  overlap, is removed.
\<close>

function remove_all :: "string \<Rightarrow> string \<Rightarrow> string" where
  "remove_all old s =
     (if old = [] \<or> s = [] then s
      else if prefix old s then remove_all old (drop (length old) s)
      else hd s # remove_all old (tl s))"
  by pat_completeness auto
termination
  by (relation "measure (\<lambda>(old, s). length s)") auto

declare remove_all.simps [simp del]

text \<open>
  Python's \<^verbatim>\<open>re\<close> module is a parameter of the model: \<open>re_match f s\<close> stands for
  \<^verbatim>\<open>re.match(f, s)\<close> finding a match (at the start of \<open>s\<close>) and \<open>re_search p s\<close> for
  \<^verbatim>\<open>re.search(p, s)\<close> finding one anywhere, which is what
  \<^verbatim>\<open>Series.str.contains(p, regex=True)\<close> tests. For a pattern without metacharacters
  the two are the tests below.
\<close>

definition literal_match :: "string \<Rightarrow> string \<Rightarrow> bool" where
  "literal_match f s = prefix f s"

fun literal_search :: "string \<Rightarrow> string \<Rightarrow> bool" where
  "literal_search p [] = (p = [])"
| "literal_search p (c # cs) = (prefix p (c # cs) \<or> literal_search p cs)"

subsection \<open>\<^verbatim>\<open>readFitInfoFromFile\<close>\<close>

text \<open>Python's truth value of \<^verbatim>\<open>grouping\<close> (a list of labels or \<^verbatim>\<open>None\<close>) and of \<^verbatim>\<open>poi\<close>.\<close>

definition truthy :: "'a list option \<Rightarrow> bool" where
  "truthy x = (case x of None \<Rightarrow> False | Some xs \<Rightarrow> xs \<noteq> [])"

definition members :: "'a list option \<Rightarrow> 'a set" where
  "members x = (case x of None \<Rightarrow> {} | Some xs \<Rightarrow> set xs)"

text \<open>
  The body of the filter loop: a pair of impact and label reaches the two \<^verbatim>\<open>append\<close>
  calls unless one of the two \<^verbatim>\<open>continue\<close> statements is taken.
\<close>

definition keep_row ::
  "(string \<Rightarrow> string \<Rightarrow> bool) \<Rightarrow> bool \<Rightarrow> string list option \<Rightarrow> string list \<Rightarrow>
   float64 \<times> string \<Rightarrow> bool" where
  "keep_row re_match grouped grouping filters il =
     (if grouped \<and> truthy grouping \<and> snd il \<notin> members grouping then False
      else if filters \<noteq> [] \<and> \<not> list_ex (\<lambda>f. re_match f (snd il)) filters then False
      else True)"

text \<open>
  The filter block. The loop runs over \<^verbatim>\<open>zip(impacts, labels)\<close>; without a filter and
  a grouping the two arrays are left as they are.
\<close>

definition filter_rows ::
  "(string \<Rightarrow> string \<Rightarrow> bool) \<Rightarrow> bool \<Rightarrow> string list option \<Rightarrow> string list \<Rightarrow>
   float64 list \<Rightarrow> string list \<Rightarrow> float64 list \<times> string list" where
  "filter_rows re_match grouped grouping filters impacts labels =
     (if (grouped \<and> truthy grouping) \<or> filters \<noteq> [] then
        (let kept = filter (keep_row re_match grouped grouping filters) (zip impacts labels)
         in (map fst kept, map snd kept))
      else (impacts, labels))"

text \<open>\<^verbatim>\<open>translate_label.get(l, l)\<close>.\<close>

definition translate :: "(string \<rightharpoonup> string) \<Rightarrow> string \<Rightarrow> string" where
  "translate translate_label l = (case translate_label l of None \<Rightarrow> l | Some t \<Rightarrow> t)"

text \<open>
  \<^verbatim>\<open>pd.DataFrame(np.array(impacts, dtype=np.float64).T*scale, columns=["impact"])\<close>,
  for the one-dimensional array of impacts of one parameter of interest.
\<close>

definition impact_frame :: "(real \<Rightarrow> float64) \<Rightarrow> float64 list \<Rightarrow> float64 \<Rightarrow> dataframe" where
  "impact_frame rnd impacts scale =
     \<lparr>columns = [''impact''],
      rows = map (\<lambda>x. [''impact'' \<mapsto> Num (fmul rnd x scale)]) impacts\<rparr>"

text \<open>\<^verbatim>\<open>Series.replace([np.inf, -np.inf, np.nan], 999)\<close> on one value.\<close>

definition replace_inf_nan :: "float64 \<Rightarrow> float64" where
  "replace_inf_nan x = (if x = PInf \<or> x = NInf \<or> x = NaN then Fin 999 else x)"

text \<open>
  The pulls of the ungrouped table. \<open>get_pulls_and_constraints\<close> is the reader of the
  fit result, applied to the labels that passed the filter; it returns the arrays of
  pulls, constraints and prefit pulls.
\<close>

definition add_pulls ::
  "(real \<Rightarrow> float64) \<Rightarrow> (string list \<Rightarrow> float64 list \<times> float64 list \<times> float64 list) \<Rightarrow> string list \<Rightarrow>
   dataframe \<Rightarrow> error + dataframe" where
  "add_pulls rnd get_pulls_and_constraints labels df =
     (case get_pulls_and_constraints labels of (pulls, constraints, prefit) \<Rightarrow>
        bind (set_column ''pull'' (map Num pulls) df) (\<lambda>df.
        bind (set_column ''constraint'' (map Num constraints) df) (\<lambda>df.
        bind (set_column ''pull_prefit'' (map Num prefit) df) (\<lambda>df.
        Inr (assign ''newpull'' (\<lambda>r. Num (replace_inf_nan (numv r ''newpull'')))
            (assign ''newpull'' (\<lambda>r. Num (fdiv rnd (numv r ''pull'')
                (fpow_half rnd (fsub rnd (Fin 1) (fsquare rnd (numv r ''constraint''))))))
            (assign ''abspull'' (\<lambda>r. Num (fabs (numv r ''pull'')))
            (assign ''pull'' (\<lambda>r. Num (fsub rnd (numv r ''pull'') (numv r ''pull_prefit'')))
             df))))))))"

text \<open>
  \<^verbatim>\<open>df.drop(df.loc[df['label'].str.contains(poi.replace("_noi",""), regex=True)].index)\<close>:
  the index of the table is still \<open>0, 1, ...\<close> here, so exactly the rows selected by
  \<^verbatim>\<open>loc\<close> go.
\<close>

definition drop_poi :: "(string \<Rightarrow> string \<Rightarrow> bool) \<Rightarrow> string \<Rightarrow> dataframe \<Rightarrow> dataframe" where
  "drop_poi re_search poi df =
     df\<lparr>rows := filter (\<lambda>r. \<not> re_search (remove_all ''_noi'' poi) (strv r ''label''))
                  (rows df)\<rparr>"

text \<open>The colours: the neutral one, and in the ungrouped table another where the impact is positive.\<close>

definition add_colors :: "bool \<Rightarrow> dataframe \<Rightarrow> dataframe" where
  "add_colors grouped df =
     assign ''impact_color''
       (\<lambda>r. Str (if \<not> grouped \<and> fpositive (numv r ''impact'') then ''#e41a1c'' else ''#377eb8''))
       df"

text \<open>
  The builder. \<open>impacts\<close> and \<open>labels\<close> are what \<^verbatim>\<open>read_impacts_poi\<close> returned for the
  file; \<open>poi\<close> is \<^verbatim>\<open>None\<close> or a string.
\<close>

definition readFitInfoFromFile ::
  "(real \<Rightarrow> float64) \<Rightarrow> (string \<Rightarrow> string \<Rightarrow> bool) \<Rightarrow> (string \<Rightarrow> string \<Rightarrow> bool) \<Rightarrow> (string \<rightharpoonup> string) \<Rightarrow>
   (string list \<Rightarrow> float64 list \<times> float64 list \<times> float64 list) \<Rightarrow>
   float64 list \<Rightarrow> string list \<Rightarrow> string option \<Rightarrow> bool \<Rightarrow> string list option \<Rightarrow>
   string list \<Rightarrow> float64 \<Rightarrow> error + dataframe" where
  "readFitInfoFromFile rnd re_match re_search translate_label get_pulls_and_constraints
       impacts labels poi grouped grouping filters scale =
     (case filter_rows re_match grouped grouping filters impacts labels of (impacts, labels) \<Rightarrow>
        bind (set_column ''label'' (map (\<lambda>l. Str (translate translate_label l)) labels)
               (impact_frame rnd impacts scale)) (\<lambda>df.
        bind (Inr (assign ''absimpact'' (\<lambda>r. Num (fabs (numv r ''impact''))) df)) (\<lambda>df.
        bind (if \<not> grouped then
                bind (add_pulls rnd get_pulls_and_constraints labels df) (\<lambda>df.
                Inr (if truthy poi then drop_poi re_search (the poi) df else df))
              else Inr df) (\<lambda>df.
        Inr (add_colors grouped df)))))"

subsection \<open>The merge with the reference table\<close>

text \<open>
  \<^verbatim>\<open>df.merge(df_ref, how="outer", on="label", suffixes=("","_ref"))\<close>. A column of the
  reference table whose name the current table has too gets the suffix; the key column
  is there once.
\<close>

definition ref_name :: "string list \<Rightarrow> string \<Rightarrow> string" where
  "ref_name left_columns c = (if c \<in> set left_columns then c @ ''_ref'' else c)"

definition merged_columns :: "string list \<Rightarrow> string list \<Rightarrow> string list" where
  "merged_columns lc rc = lc @ map (ref_name lc) (filter (\<lambda>c. c \<noteq> ''label'') rc)"

text \<open>A side of the join that has no row for the key: every column of it is missing.\<close>

definition missing_side :: "string list \<Rightarrow> row" where
  "missing_side cs = (\<lambda>c. if c \<in> set cs then Some (Num NaN) else None)"

definition ref_entries :: "string list \<Rightarrow> string list \<Rightarrow> row \<Rightarrow> (string \<times> cell) list" where
  "ref_entries lc rc r =
     concat (map (\<lambda>c. case r c of None \<Rightarrow> [] | Some v \<Rightarrow> [(ref_name lc c, v)])
                 (filter (\<lambda>c. c \<noteq> ''label'') rc))"

definition join_row :: "string list \<Rightarrow> string list \<Rightarrow> string \<Rightarrow> row option \<Rightarrow> row option \<Rightarrow> row" where
  "join_row lc rc key l r =
     ((case l of None \<Rightarrow> missing_side lc | Some lr \<Rightarrow> lr) ++
      map_of (ref_entries lc rc (case r of None \<Rightarrow> missing_side rc | Some rr \<Rightarrow> rr)))
     (''label'' \<mapsto> Str key)"

text \<open>
  The rows of an outer join for one key: every pair of a current and a reference row with
  that key, or the rows of the one side that has it, the other side missing.
\<close>

definition join_key :: "string list \<Rightarrow> string list \<Rightarrow> row list \<Rightarrow> row list \<Rightarrow> string \<Rightarrow> row list" where
  "join_key lc rc ls rs key =
     (let L = filter (\<lambda>r. strv r ''label'' = key) ls;
          R = filter (\<lambda>r. strv r ''label'' = key) rs
      in if R = [] then map (\<lambda>l. join_row lc rc key (Some l) None) L
         else if L = [] then map (\<lambda>r. join_row lc rc key None (Some r)) R
         else concat (map (\<lambda>l. map (\<lambda>r. join_row lc rc key (Some l) (Some r)) R) L))"

text \<open>
  The outer join takes the union of the keys of both tables and, as pandas documents
  it, sorts the keys lexicographically.
\<close>

definition merge_outer :: "dataframe \<Rightarrow> dataframe \<Rightarrow> error + dataframe" where
  "merge_outer df df_ref =
     (if ''label'' \<notin> set (columns df) \<or> ''label'' \<notin> set (columns df_ref)
      then Inl (KeyError ''label'')
      else
        (let keys = sort (remdups (map (\<lambda>r. strv r ''label'') (rows df @ rows df_ref)))
         in Inr \<lparr>columns = merged_columns (columns df) (columns df_ref),
                 rows = concat (map (join_key (columns df) (columns df_ref)
                                       (rows df) (rows df_ref)) keys)\<rparr>))"

text \<open>\<^verbatim>\<open>Series.fillna(v)\<close> on one cell, and \<^verbatim>\<open>df[col] = df[col].fillna(v)\<close>.\<close>

definition fillna_cell :: "cell \<Rightarrow> cell \<Rightarrow> cell" where
  "fillna_cell v x = (if x = Num NaN then v else x)"

definition fillna_column :: "string \<Rightarrow> cell \<Rightarrow> dataframe \<Rightarrow> dataframe" where
  "fillna_column c v df =
     df\<lparr>rows := map (\<lambda>r. case r c of None \<Rightarrow> r | Some x \<Rightarrow> r(c \<mapsto> fillna_cell v x))
                  (rows df)\<rparr>"

text \<open>\<^verbatim>\<open>default_values.get(col, 0)\<close>.\<close>

definition default_values :: "string \<Rightarrow> cell" where
  "default_values c =
     (if c = ''impact_color'' \<or> c = ''impact_color_ref'' then Str ''#377eb8''
      else Num (Fin 0))"

text \<open>The loop over \<^verbatim>\<open>df.columns\<close> after the merge.\<close>

definition fill_defaults :: "dataframe \<Rightarrow> dataframe" where
  "fill_defaults df = fold (\<lambda>c. fillna_column c (default_values c)) (columns df) df"

text \<open>\<^verbatim>\<open>df.fillna(0)\<close>: every column.\<close>

definition fillna_all :: "cell \<Rightarrow> dataframe \<Rightarrow> dataframe" where
  "fillna_all v df = fold (\<lambda>c. fillna_column c v) (columns df) df"

subsection \<open>Sorting\<close>

text \<open>The choices that the argument parser accepts for \<^verbatim>\<open>--sort\<close>.\<close>

definition base_sort_choices :: "string list" where
  "base_sort_choices = [''label'', ''pull'', ''abspull'', ''constraint'', ''absimpact'']"

definition sort_choices :: "string list" where
  "sort_choices =
     base_sort_choices @ map (\<lambda>c. c @ ''_diff'') base_sort_choices
       @ map (\<lambda>c. c @ ''_ref'') base_sort_choices
       @ map (\<lambda>c. c @ ''_both'') base_sort_choices"

text \<open>
  \<^verbatim>\<open>df[c]\<close> raises \<^verbatim>\<open>KeyError\<close> for a column that the table does not have; both
  columns of a sort key are read before they are combined. Combining columns of strings
  is taken to raise \<^verbatim>\<open>TypeError\<close>; no table of the builder has a string column under
  one of the names that reach this test.
\<close>

definition has_column :: "dataframe \<Rightarrow> string \<Rightarrow> error + unit" where
  "has_column df c = (if c \<in> set (columns df) then Inr () else Inl (KeyError c))"

definition is_num :: "cell option \<Rightarrow> bool" where
  "is_num x = (case x of Some (Num _) \<Rightarrow> True | _ \<Rightarrow> False)"

definition numeric_column :: "dataframe \<Rightarrow> string \<Rightarrow> error + unit" where
  "numeric_column df c =
     (if list_all (\<lambda>r. is_num (r c)) (rows df) then Inr () else Inl TypeError)"

text \<open>\<^verbatim>\<open>max(axis=1)\<close> and \<^verbatim>\<open>min(axis=1)\<close> of two columns skip a missing value.\<close>

fun fle :: "float64 \<Rightarrow> float64 \<Rightarrow> bool" where
  "fle NaN _ = False"
| "fle _ NaN = False"
| "fle NInf _ = True"
| "fle _ PInf = True"
| "fle (Fin x) (Fin y) = (x \<le> y)"
| "fle _ _ = False"

definition fmax_skipna :: "float64 \<Rightarrow> float64 \<Rightarrow> float64" where
  "fmax_skipna a b = (if a = NaN then b else if b = NaN then a else if fle a b then b else a)"

definition fmin_skipna :: "float64 \<Rightarrow> float64 \<Rightarrow> float64" where
  "fmin_skipna a b = (if a = NaN then b else if b = NaN then a else if fle a b then a else b)"

text \<open>
  The sort key of the modes \<^verbatim>\<open><col>_diff\<close> and \<^verbatim>\<open><col>_both\<close>, added as a column before
  the table is sorted.
\<close>

definition add_sort_key :: "(real \<Rightarrow> float64) \<Rightarrow> string \<Rightarrow> bool \<Rightarrow> dataframe \<Rightarrow> error + dataframe" where
  "add_sort_key rnd sort_mode ascending df =
     (if suffix ''diff'' sort_mode then
        (let key = remove_all ''_diff'' sort_mode in
         bind (has_column df key) (\<lambda>_.
         bind (has_column df (key @ ''_ref'')) (\<lambda>_.
         bind (numeric_column df key) (\<lambda>_.
         bind (numeric_column df (key @ ''_ref'')) (\<lambda>_.
         Inr (assign (key @ ''_diff'')
                (\<lambda>r. Num (fabs (fsub rnd (numv r key) (numv r (key @ ''_ref''))))) df))))))
      else if suffix ''both'' sort_mode then
        (let key = remove_all ''_both'' sort_mode in
         bind (has_column df key) (\<lambda>_.
         bind (has_column df (key @ ''_ref'')) (\<lambda>_.
         bind (numeric_column df key) (\<lambda>_.
         bind (numeric_column df (key @ ''_ref'')) (\<lambda>_.
         Inr (assign (key @ ''_both'')
                (\<lambda>r. Num ((if ascending then fmax_skipna else fmin_skipna)
                             (numv r key) (numv r (key @ ''_ref'')))) df))))))
      else Inr df)"

text \<open>
  The order of \<^verbatim>\<open>sort_values\<close> on one column: numbers by value with the infinities at
  the ends, strings lexicographically. Missing values are not compared: they go last in
  both directions.
\<close>

fun order_key :: "cell \<Rightarrow> (nat \<times> real) \<times> string" where
  "order_key (Num NInf) = ((0, 0), [])"
| "order_key (Num (Fin x)) = ((1, x), [])"
| "order_key (Num PInf) = ((2, 0), [])"
| "order_key (Num NaN) = ((3, 0), [])"
| "order_key (Str s) = ((4, 0), s)"

definition cellv :: "row \<Rightarrow> string \<Rightarrow> cell" where
  "cellv r c = (case r c of None \<Rightarrow> Num NaN | Some x \<Rightarrow> x)"

definition isna :: "string \<Rightarrow> row \<Rightarrow> bool" where
  "isna c r = (cellv r c = Num NaN)"

text \<open>
  \<^verbatim>\<open>df.sort_values(by=c, ascending=a)\<close>. pandas sorts the rows that have a value and
  puts the others behind them; for the descending order it reverses the rows, sorts
  ascending and reverses the result. Rows with equal keys are in the order of a stable
  sort here; the default algorithm of pandas does not fix their order.
\<close>

definition sort_values :: "string \<Rightarrow> bool \<Rightarrow> dataframe \<Rightarrow> error + dataframe" where
  "sort_values c ascending df =
     bind (has_column df c) (\<lambda>_.
       (let present = filter (\<lambda>r. \<not> isna c r) (rows df);
            missing = filter (isna c) (rows df);
            k = (\<lambda>r. order_key (cellv r c))
        in Inr (df\<lparr>rows := (if ascending then sort_key k present
                            else rev (sort_key k (rev present))) @ missing\<rparr>)))"

text \<open>The block under \<^verbatim>\<open>if args.sort:\<close>.\<close>

definition sort_table :: "(real \<Rightarrow> float64) \<Rightarrow> string \<Rightarrow> bool \<Rightarrow> dataframe \<Rightarrow> error + dataframe" where
  "sort_table rnd sort_mode ascending df =
     (if sort_mode = [] then Inr df
      else bind (add_sort_key rnd sort_mode ascending df) (sort_values sort_mode ascending))"

subsection \<open>The row limit\<close>

text \<open>
  \<^verbatim>\<open>df[-n:]\<close>: the last \<open>n\<close> rows for a positive \<open>n\<close> (all of them when there are
  fewer), and the rows from position \<open>-n\<close> on for a negative one.
\<close>

definition tail_rows :: "int \<Rightarrow> 'a list \<Rightarrow> 'a list" where
  "tail_rows n xs = (if 0 < n then drop (length xs - nat n) xs else drop (nat (- n)) xs)"

text \<open>\<^verbatim>\<open>df.size\<close> is the number of cells of the table.\<close>

definition size_df :: "dataframe \<Rightarrow> nat" where
  "size_df df = length (rows df) * length (columns df)"

text \<open>
  \<^verbatim>\<open>if args.num and args.num < df.size: ... df = df[-args.num:]\<close>, with \<^verbatim>\<open>args.num\<close> an
  integer or \<^verbatim>\<open>None\<close>; the integer \<open>0\<close> is false.
\<close>

definition limit_rows :: "int option \<Rightarrow> dataframe \<Rightarrow> dataframe" where
  "limit_rows num df =
     (case num of
        None \<Rightarrow> df
      | Some n \<Rightarrow> if n \<noteq> 0 \<and> n < int (size_df df) then df\<lparr>rows := tail_rows n (rows df)\<rparr> else df)"

subsection \<open>Scale and title of a parameter of interest\<close>

text \<open>\<^verbatim>\<open>sub in s\<close>, \<^verbatim>\<open>s.split(sep)[0]\<close> and \<^verbatim>\<open>s.split("_")\<close>.\<close>

definition contains :: "string \<Rightarrow> string \<Rightarrow> bool" where
  "contains sub s = literal_search sub s"

fun before_first :: "string \<Rightarrow> string \<Rightarrow> string" where
  "before_first sep [] = []"
| "before_first sep (c # cs) = (if prefix sep (c # cs) then [] else c # before_first sep cs)"

definition last_segment :: "string \<Rightarrow> string" where
  "last_segment s = rev (takeWhile (\<lambda>c. c \<noteq> CHR ''_'') (rev s))"

text \<open>\<^verbatim>\<open>"_".join(s.split("_")[:-1])\<close>: the string up to its last underscore.\<close>

definition without_last_segment :: "string \<Rightarrow> string" where
  "without_last_segment s = rev (drop 1 (dropWhile (\<lambda>c. c \<noteq> CHR ''_'') (rev s)))"

text \<open>\<^verbatim>\<open>re.findall(r'\d+', s)\<close>: the maximal runs of digits, from the left.\<close>

definition is_digit :: "char \<Rightarrow> bool" where
  "is_digit c = (c \<in> set ''0123456789'')"

fun digit_runs :: "string \<Rightarrow> string \<Rightarrow> string list" where
  "digit_runs cur [] = (if cur = [] then [] else [cur])"
| "digit_runs cur (c # cs) =
     (if is_digit c then digit_runs (cur @ [c]) cs
      else (if cur = [] then [] else [cur]) @ digit_runs [] cs)"

text \<open>\<^verbatim>\<open>float\<close> of a string of digits.\<close>

definition digits_value :: "string \<Rightarrow> nat" where
  "digits_value ds = foldl (\<lambda>n c. 10 * n + (of_char c - 48)) 0 ds"

text \<open>
  The first lines of \<^verbatim>\<open>producePlots\<close>: the scale of a parameter whose name has
  \<^verbatim>\<open>MeV\<close> in it is the last number before it, twice that for a difference.
\<close>

definition mev_scale :: "string option \<Rightarrow> error + float64" where
  "mev_scale poi =
     (case poi of
        None \<Rightarrow> Inr (Fin 1)
      | Some p \<Rightarrow>
          if contains ''MeV'' p then
            (case digit_runs []
                    (map (\<lambda>c. if c = CHR ''p'' then CHR ''.'' else c) (before_first ''MeV'' p)) of
               [] \<Rightarrow> Inl IndexError
             | ds \<Rightarrow>
                 (let scale = real (digits_value (last ds))
                  in Inr (Fin (if contains ''Diff'' p then scale * 2 else scale))))
          else Inr (Fin 1))"

datatype impact_title =
    MassTitle
  | MassDiffChargeTitle
  | MassDiffEtaTitle
  | MassDiffTitle
  | WidthTitle
  | SigmaFidTitle string
  | NormalizedTitle
  | RatioTitle string
  | PoiTitle "string option"

text \<open>
  \<open>channel_info\<close> is the dictionary that \<^verbatim>\<open>combine_channels\<close> returns, as the list of
  its items: the name of a channel and its luminosity, a Python float. The division
  \<^verbatim>\<open>1./(lumi*1000)\<close> of Python floats raises \<^verbatim>\<open>ZeroDivisionError\<close> for a zero.
  The scale is one number computed before the table is built; its value is written
  without rounding.
\<close>

definition lumi_scale :: "(string \<times> real) list \<Rightarrow> error + float64" where
  "lumi_scale channel_info =
     (if length channel_info = 1 then
        (case map_of channel_info ''chan_13TeV'' of
           None \<Rightarrow> Inl (KeyError ''chan_13TeV'')
         | Some lumi \<Rightarrow>
             if lumi * 1000 = 0 then Inl ZeroDivisionError
             else Inr (Fin (1 / (lumi * 1000))))
      else Inl (NotImplementedError (map fst channel_info)))"

definition poi_type :: "string option \<Rightarrow> string option" where
  "poi_type poi = (if truthy poi then Some (last_segment (the poi)) else None)"

definition starts_with :: "string option \<Rightarrow> string \<Rightarrow> bool" where
  "starts_with poi s = (truthy poi \<and> prefix s (the poi))"

text \<open>The chain of \<^verbatim>\<open>if\<close> and \<^verbatim>\<open>elif\<close> that fixes the scale and the title of the impacts.\<close>

definition scale_and_title ::
  "(string \<times> real) list \<Rightarrow> string option \<Rightarrow> error + (float64 \<times> impact_title)" where
  "scale_and_title channel_info poi =
     bind (mev_scale poi) (\<lambda>scale.
       if starts_with poi ''massShift'' then Inr (scale, MassTitle)
       else if starts_with poi ''massDiff'' then
         (if starts_with poi ''massDiffCharge'' then Inr (scale, MassDiffChargeTitle)
          else if starts_with poi ''massDiffEta'' then Inr (scale, MassDiffEtaTitle)
          else Inr (scale, MassDiffTitle))
       else if starts_with poi ''width'' then Inr (scale, WidthTitle)
       else if poi_type poi \<in> Some ` {''pmaskedexp'', ''pmaskedexpnorm'', ''sumxsec'', ''sumxsecnorm''} then
         (if poi_type poi \<in> Some ` {''pmaskedexp'', ''sumxsec''} then
            bind (lumi_scale channel_info) (\<lambda>scale.
              Inr (scale, SigmaFidTitle (without_last_segment (the poi))))
          else Inr (scale, NormalizedTitle))
       else if poi_type poi = Some ''ratiometaratio'' then
         Inr (Fin 1000, RatioTitle (remove_all ''r_'' (without_last_segment (the poi))))
       else Inr (scale, PoiTitle poi))"

subsection \<open>\<^verbatim>\<open>producePlots\<close>\<close>

text \<open>
  What the script reads from a fit result: the impacts and labels that
  \<^verbatim>\<open>read_impacts_poi\<close> returns for the parameter of interest, per nuisance or per
  group; the arrays of \<^verbatim>\<open>get_pulls_and_constraints\<close>; the channels of the meta data.
\<close>

record fitresult =
  impacts_poi :: "bool \<Rightarrow> float64 list \<times> string list"
  pulls_and_constraints :: "string list \<Rightarrow> float64 list \<times> float64 list \<times> float64 list"
  channels :: "(string \<times> real) list"

text \<open>The arguments of the command line that the table depends on.\<close>

record args =
  arg_sort :: string
  arg_ascending :: bool
  arg_output_mode :: "string option"
  arg_num :: "int option"

text \<open>
  The table of the current fit: per group only when groups are asked for and the plots
  are written to files.
\<close>

definition current_table ::
  "(real \<Rightarrow> float64) \<Rightarrow> (string \<Rightarrow> string \<Rightarrow> bool) \<Rightarrow> (string \<Rightarrow> string \<Rightarrow> bool) \<Rightarrow> (string \<rightharpoonup> string) \<Rightarrow>
   fitresult \<Rightarrow> args \<Rightarrow> string option \<Rightarrow> bool \<Rightarrow> string list option \<Rightarrow>
   float64 \<Rightarrow> error + dataframe" where
  "current_table rnd re_match re_search translate_label fr a poi grouped grouping scale =
     (if \<not> (grouped \<and> arg_output_mode a = Some ''output'') then
        readFitInfoFromFile rnd re_match re_search translate_label (pulls_and_constraints fr)
          (fst (impacts_poi fr False)) (snd (impacts_poi fr False))
          poi False None [] scale
      else
        readFitInfoFromFile rnd re_match re_search translate_label (pulls_and_constraints fr)
          (fst (impacts_poi fr True)) (snd (impacts_poi fr True))
          poi True grouping [] scale)"

text \<open>The table of the reference fit.\<close>

definition reference_table ::
  "(real \<Rightarrow> float64) \<Rightarrow> (string \<Rightarrow> string \<Rightarrow> bool) \<Rightarrow> (string \<Rightarrow> string \<Rightarrow> bool) \<Rightarrow> (string \<rightharpoonup> string) \<Rightarrow>
   fitresult \<Rightarrow> string option \<Rightarrow> bool \<Rightarrow> string list option \<Rightarrow>
   float64 \<Rightarrow> error + dataframe" where
  "reference_table rnd re_match re_search translate_label ref poi grouped grouping scale =
     readFitInfoFromFile rnd re_match re_search translate_label (pulls_and_constraints ref)
       (fst (impacts_poi ref grouped)) (snd (impacts_poi ref grouped))
       poi grouped grouping [] scale"

text \<open>
  With a reference fit the two tables are merged and every missing value is filled with
  the default of its column.
\<close>

definition build_table ::
  "(real \<Rightarrow> float64) \<Rightarrow> (string \<Rightarrow> string \<Rightarrow> bool) \<Rightarrow> (string \<Rightarrow> string \<Rightarrow> bool) \<Rightarrow> (string \<rightharpoonup> string) \<Rightarrow>
   fitresult \<Rightarrow> fitresult option \<Rightarrow> args \<Rightarrow> string option \<Rightarrow> bool \<Rightarrow> string list option \<Rightarrow>
   float64 \<Rightarrow> error + dataframe" where
  "build_table rnd re_match re_search translate_label fr fr_ref a poi grouped grouping scale =
     bind (current_table rnd re_match re_search translate_label fr a poi grouped grouping scale)
       (\<lambda>df.
       case fr_ref of
         None \<Rightarrow> Inr df
       | Some ref \<Rightarrow>
           bind (reference_table rnd re_match re_search translate_label ref poi grouped grouping
                   scale) (\<lambda>df_ref.
           bind (merge_outer df df_ref) (\<lambda>df. Inr (fill_defaults df))))"

text \<open>
  What a call of \<^verbatim>\<open>producePlots\<close> does with its table: it plots it, or serves it in the
  interactive session.
\<close>

datatype outcome = Plotted impact_title dataframe | Served dataframe

definition producePlots ::
  "(real \<Rightarrow> float64) \<Rightarrow> (string \<Rightarrow> string \<Rightarrow> bool) \<Rightarrow> (string \<Rightarrow> string \<Rightarrow> bool) \<Rightarrow> (string \<rightharpoonup> string) \<Rightarrow>
   fitresult \<Rightarrow> args \<Rightarrow> string option \<Rightarrow> bool \<Rightarrow> fitresult option \<Rightarrow> string list option \<Rightarrow>
   error + outcome" where
  "producePlots rnd re_match re_search translate_label fr a poi grouped fr_ref grouping =
     bind (scale_and_title (channels fr) poi) (\<lambda>(scale, title).
     bind (build_table rnd re_match re_search translate_label fr fr_ref a poi grouped grouping scale)
       (\<lambda>df.
     bind (sort_table rnd (arg_sort a) (arg_ascending a) df) (\<lambda>df.
       (let df = fillna_all (Num (Fin 0)) df
        in if arg_output_mode a = Some ''interactive'' then Inr (Served df)
           else if arg_output_mode a = Some ''output'' then
             Inr (Plotted title (limit_rows (arg_num a) df))
           else Inl ValueError))))"

subsection \<open>Columns and rows, for the statements\<close>

text \<open>A column of a table as the list of its cells.\<close>

definition column :: "string \<Rightarrow> dataframe \<Rightarrow> cell option list" where
  "column c df = map (\<lambda>r. r c) (rows df)"

definition label_column :: "dataframe \<Rightarrow> string list" where
  "label_column df = map (\<lambda>r. strv r ''label'') (rows df)"

text \<open>
  The row that the builder derives from one entry of the arrays it reads: the impact
  and the label, and for the ungrouped table the pull, the constraint and the prefit
  pull. The updates are in the order of the assignments of the builder.
\<close>

definition grouped_row :: "(real \<Rightarrow> float64) \<Rightarrow> float64 \<Rightarrow> (string \<rightharpoonup> string) \<Rightarrow> float64 \<times> string \<Rightarrow> row" where
  "grouped_row rnd scale translate_label xl =
     [''impact'' \<mapsto> Num (fmul rnd (fst xl) scale),
      ''label'' \<mapsto> Str (translate translate_label (snd xl)),
      ''absimpact'' \<mapsto> Num (fabs (fmul rnd (fst xl) scale)),
      ''impact_color'' \<mapsto> Str ''#377eb8'']"

definition newpull_of :: "(real \<Rightarrow> float64) \<Rightarrow> float64 \<Rightarrow> float64 \<Rightarrow> float64" where
  "newpull_of rnd pull constraint =
     replace_inf_nan (fdiv rnd pull (fpow_half rnd (fsub rnd (Fin 1) (fsquare rnd constraint))))"

text \<open>
  What the specification says of the stored \<open>newpull\<close> of a row with the pull \<open>pull\<close>
  and the constraint \<open>c\<close>, step by step in doubles: it is \<open>pull / sqrt(1 - c\<^sup>2)\<close>, every
  step rounded, when all steps are finite and the divisor is not zero, unless the
  quotient itself is out of range; it is the sentinel 999 in every other case (a zero
  divisor, the root of a negative number, an infinite or undefined pull or constraint, a
  quotient out of range), so for the constraint 1; and it is never an infinity or NaN.
\<close>

definition newpull_claimed :: "(real \<Rightarrow> float64) \<Rightarrow> float64 \<Rightarrow> float64 \<Rightarrow> float64 \<Rightarrow> bool" where
  "newpull_claimed rnd pull c stored =
     ((\<exists>v. stored = Fin v) \<and>
      (\<forall>q k s d t.
         pull = Fin q \<and> c = Fin k \<and> rnd (k * k) = Fin s \<and> rnd (1 - s) = Fin d \<and> 0 \<le> d \<and>
         rnd (sqrt d) = Fin t \<and> t \<noteq> 0 \<longrightarrow>
           stored = (case rnd (q / t) of Fin v \<Rightarrow> Fin v | _ \<Rightarrow> Fin 999)) \<and>
      (\<forall>k s d.
         c = Fin k \<and> rnd (k * k) = Fin s \<and> rnd (1 - s) = Fin d \<and>
         (d < 0 \<or> rnd (sqrt d) = Fin 0) \<longrightarrow> stored = Fin 999) \<and>
      (\<forall>k. c = Fin k \<and> rnd (k * k) = PInf \<longrightarrow> stored = Fin 999) \<and>
      (c = PInf \<or> c = NInf \<or> c = NaN \<longrightarrow> stored = Fin 999) \<and>
      (pull = PInf \<or> pull = NInf \<or> pull = NaN \<longrightarrow> stored = Fin 999) \<and>
      (rnd 0 = Fin 0 \<and> rnd 1 = Fin 1 \<and> c = Fin 1 \<longrightarrow> stored = Fin 999))"

definition ungrouped_row ::
  "(real \<Rightarrow> float64) \<Rightarrow> float64 \<Rightarrow> (string \<rightharpoonup> string) \<Rightarrow>
   (((float64 \<times> string) \<times> float64) \<times> float64) \<times> float64 \<Rightarrow> row" where
  "ungrouped_row rnd scale translate_label t =
     (case t of ((((x, l), p), c), pp) \<Rightarrow>
        [''impact'' \<mapsto> Num (fmul rnd x scale),
         ''label'' \<mapsto> Str (translate translate_label l),
         ''absimpact'' \<mapsto> Num (fabs (fmul rnd x scale)),
         ''constraint'' \<mapsto> Num c,
         ''pull_prefit'' \<mapsto> Num pp,
         ''pull'' \<mapsto> Num (fsub rnd p pp),
         ''abspull'' \<mapsto> Num (fabs (fsub rnd p pp)),
         ''newpull'' \<mapsto> Num (newpull_of rnd (fsub rnd p pp) c),
         ''impact_color'' \<mapsto> Str (if fpositive (fmul rnd x scale) then ''#e41a1c'' else ''#377eb8'')])"

definition grouped_columns :: "string list" where
  "grouped_columns = [''impact'', ''label'', ''absimpact'', ''impact_color'']"

definition ungrouped_columns :: "string list" where
  "ungrouped_columns =
     [''impact'', ''label'', ''absimpact'', ''pull'', ''constraint'', ''pull_prefit'',
      ''abspull'', ''newpull'', ''impact_color'']"

text \<open>The row of the ungrouped table after the pulls are derived, from the row before.\<close>

definition with_pulls :: "(real \<Rightarrow> float64) \<Rightarrow> row \<Rightarrow> float64 \<Rightarrow> float64 \<Rightarrow> float64 \<Rightarrow> row" where
  "with_pulls rnd r p c pp =
     r(''constraint'' \<mapsto> Num c, ''pull_prefit'' \<mapsto> Num pp, ''pull'' \<mapsto> Num (fsub rnd p pp),
       ''abspull'' \<mapsto> Num (fabs (fsub rnd p pp)), ''newpull'' \<mapsto> Num (newpull_of rnd (fsub rnd p pp) c))"


text \<open>
  Rows in the order of column \<open>c\<close>: a row is before another when the other has no value
  in \<open>c\<close>, or both have one and the two values are in the direction asked for.
\<close>

definition before :: "string \<Rightarrow> bool \<Rightarrow> row \<Rightarrow> row \<Rightarrow> bool" where
  "before c ascending r s =
     (isna c s \<or>
      (\<not> isna c r \<and>
       (if ascending then order_key (cellv r c) \<le> order_key (cellv s c)
        else order_key (cellv s c) \<le> order_key (cellv r c))))"

definition sorted_by :: "string \<Rightarrow> bool \<Rightarrow> row list \<Rightarrow> bool" where
  "sorted_by c ascending rs = sorted_wrt (before c ascending) rs"

text \<open>
  The two tests that decide whether an entry of the arrays is in the table. An entry is
  selected when its label matches one of the filters (if there are filters) and is in
  the grouping (if the table is per group and a grouping is given). An entry is a row of
  the parameter of interest when the table is per nuisance, a parameter is given and its
  name, without \<^verbatim>\<open>_noi\<close>, is found in the translated label.
\<close>

definition selected ::
  "(string \<Rightarrow> string \<Rightarrow> bool) \<Rightarrow> bool \<Rightarrow> string list option \<Rightarrow> string list \<Rightarrow> string \<Rightarrow> bool" where
  "selected re_match grouped grouping filters l =
     ((filters \<noteq> [] \<longrightarrow> (\<exists>f \<in> set filters. re_match f l)) \<and>
      (grouped \<and> truthy grouping \<longrightarrow> l \<in> members grouping))"

definition poi_row ::
  "(string \<Rightarrow> string \<Rightarrow> bool) \<Rightarrow> (string \<rightharpoonup> string) \<Rightarrow> string option \<Rightarrow> bool \<Rightarrow> string \<Rightarrow> bool" where
  "poi_row re_search translate_label poi grouped l =
     (\<not> grouped \<and> truthy poi \<and>
      re_search (remove_all ''_noi'' (the poi)) (translate translate_label l))"

text \<open>What the table keeps of an entry of the arrays: impact, absolute impact, label.\<close>

definition entry_cells ::
  "(real \<Rightarrow> float64) \<Rightarrow> float64 \<Rightarrow> (string \<rightharpoonup> string) \<Rightarrow> float64 \<times> string \<Rightarrow>
   cell option \<times> cell option \<times> cell option" where
  "entry_cells rnd scale tr xl =
     (Some (Num (fmul rnd (fst xl) scale)), Some (Num (fabs (fmul rnd (fst xl) scale))),
      Some (Str (translate tr (snd xl))))"

subsection \<open>Example inputs\<close>

text \<open>
  The rounding of exact arithmetic, for the examples: every result is kept as it is.
\<close>

definition exact :: "real \<Rightarrow> float64" where
  "exact x = Fin x"

text \<open>A reader that gives every label the pull 1, the constraint 1 and the prefit pull 0.\<close>

definition unit_pulls :: "string list \<Rightarrow> float64 list \<times> float64 list \<times> float64 list" where
  "unit_pulls ls = (map (\<lambda>l. Fin 1) ls, map (\<lambda>l. Fin 1) ls, map (\<lambda>l. Fin 0) ls)"

text \<open>A reader that gives every label the pull 1, the constraint 1/2 and the prefit pull 0.\<close>

definition half_pulls :: "string list \<Rightarrow> float64 list \<times> float64 list \<times> float64 list" where
  "half_pulls ls = (map (\<lambda>l. Fin 1) ls, map (\<lambda>l. Fin (1 / 2)) ls, map (\<lambda>l. Fin 0) ls)"

text \<open>The example of the specification: three impacts with the labels a, b and c.\<close>

definition example_fit :: fitresult where
  "example_fit =
     \<lparr>impacts_poi = (\<lambda>g. ([Fin 1, Fin (- 2), Fin (1 / 2)], [''a'', ''b'', ''c''])),
      pulls_and_constraints = unit_pulls,
      channels = [(''chan_13TeV'', 2)]\<rparr>"

text \<open>A reference fit with the labels b and d.\<close>

definition example_ref :: fitresult where
  "example_ref =
     \<lparr>impacts_poi = (\<lambda>g. ([Fin 5, Fin (1 / 4)], [''b'', ''d''])),
      pulls_and_constraints = half_pulls,
      channels = [(''chan_13TeV'', 2)]\<rparr>"

text \<open>Plots written to files, sorted by the absolute impact, without a row limit.\<close>

definition example_args :: args where
  "example_args =
     \<lparr>arg_sort = ''absimpact'', arg_ascending = True, arg_output_mode = Some ''output'',
      arg_num = None\<rparr>"

text \<open>The labels of the table that a call of \<^verbatim>\<open>producePlots\<close> plots or serves.\<close>

definition plotted_labels :: "outcome \<Rightarrow> string list" where
  "plotted_labels out =
     (case out of Plotted title df \<Rightarrow> label_column df | Served df \<Rightarrow> label_column df)"

section \<open>Properties\<close>

subsection \<open>Auxiliary facts\<close>

lemma bind_Inr_iff: "bind m f = Inr y \<longleftrightarrow> (\<exists>x. m = Inr x \<and> f x = Inr y)"
  by (cases m) (simp_all add: bind_def)

lemma bind_Inr [simp]: "bind (Inr x) f = f x"
  by (simp add: bind_def)

lemma bind_Inl [simp]: "bind (Inl e) f = Inl e"
  by (simp add: bind_def)

lemma set_column_Inr:
  "set_column c vs df = Inr df' \<longleftrightarrow>
     length vs = length (rows df) \<and>
     df' = \<lparr>columns = add_column c (columns df),
            rows = map (\<lambda>(r, v). r(c \<mapsto> v)) (zip (rows df) vs)\<rparr>"
  by (auto simp: set_column_def)

lemma numv_upd:
  "numv (r(c \<mapsto> v)) c' = (if c' = c then (case v of Num x \<Rightarrow> x | Str _ \<Rightarrow> NaN) else numv r c')"
  by (simp add: numv_def)

lemma strv_upd:
  "strv (r(c \<mapsto> v)) c' = (if c' = c then (case v of Str x \<Rightarrow> x | Num _ \<Rightarrow> []) else strv r c')"
  by (simp add: strv_def)

lemma readFit_grouped:
  assumes "readFitInfoFromFile rnd rm rs tr gp impacts labels poi True grouping filters scale = Inr df"
  shows "rows df = map (grouped_row rnd scale tr)
           (zip (fst (filter_rows rm True grouping filters impacts labels))
                (snd (filter_rows rm True grouping filters impacts labels)))"
    and "columns df = grouped_columns"
    and "length (fst (filter_rows rm True grouping filters impacts labels)) =
         length (snd (filter_rows rm True grouping filters impacts labels))"
  using assms
  unfolding readFitInfoFromFile_def
  by (auto simp: bind_Inr_iff set_column_Inr impact_frame_def assign_def add_colors_def
       add_column_def grouped_columns_def grouped_row_def zip_map1 zip_map2 o_def
       case_prod_unfold numv_def fun_eq_iff
       split: prod.splits)



lemma pull_chain:
  "(r(''pull'' \<mapsto> Num p, ''constraint'' \<mapsto> Num c, ''pull_prefit'' \<mapsto> Num pp,
      ''pull'' \<mapsto> Num (fsub rnd p pp), ''abspull'' \<mapsto> Num (fabs (fsub rnd p pp)),
      ''newpull'' \<mapsto> Num q, ''newpull'' \<mapsto> Num (replace_inf_nan q)))
   = r(''constraint'' \<mapsto> Num c, ''pull_prefit'' \<mapsto> Num pp, ''pull'' \<mapsto> Num (fsub rnd p pp),
       ''abspull'' \<mapsto> Num (fabs (fsub rnd p pp)), ''newpull'' \<mapsto> Num (replace_inf_nan q))"
  by (rule ext) simp

lemma add_pulls_Inr:
  assumes "add_pulls rnd gp ls df = Inr df'" and "gp ls = (ps, cs, pps)"
  shows "length ps = length (rows df)" and "length cs = length (rows df)"
    and "length pps = length (rows df)"
    and "rows df' = map (\<lambda>t. with_pulls rnd (fst (fst (fst t))) (snd (fst (fst t))) (snd (fst t)) (snd t))
                      (zip (zip (zip (rows df) ps) cs) pps)"
    and "columns df' = add_column ''newpull'' (add_column ''newpull'' (add_column ''abspull''
            (add_column ''pull'' (add_column ''pull_prefit''
            (add_column ''constraint'' (add_column ''pull'' (columns df)))))))"
proof -
  from assms obtain d1 d2 d3 where
    1: "set_column ''pull'' (map Num ps) df = Inr d1" and
    2: "set_column ''constraint'' (map Num cs) d1 = Inr d2" and
    3: "set_column ''pull_prefit'' (map Num pps) d2 = Inr d3" and
    4: "df' = assign ''newpull'' (\<lambda>r. Num (replace_inf_nan (numv r ''newpull'')))
            (assign ''newpull'' (\<lambda>r. Num (fdiv rnd (numv r ''pull'')
                (fpow_half rnd (fsub rnd (Fin 1) (fsquare rnd (numv r ''constraint''))))))
            (assign ''abspull'' (\<lambda>r. Num (fabs (numv r ''pull'')))
            (assign ''pull'' (\<lambda>r. Num (fsub rnd (numv r ''pull'') (numv r ''pull_prefit'')))
             d3)))"
    by (auto simp: add_pulls_def bind_Inr_iff)
  from 1 have l1: "length ps = length (rows df)"
    and r1: "rows d1 = map (\<lambda>t. (fst t)(''pull'' \<mapsto> Num (snd t))) (zip (rows df) ps)"
    and c1: "columns d1 = add_column ''pull'' (columns df)"
    by (auto simp: set_column_Inr zip_map2 case_prod_unfold)
  from 2 have l2: "length cs = length (rows d1)"
    and r2: "rows d2 = map (\<lambda>t. (fst t)(''constraint'' \<mapsto> Num (snd t))) (zip (rows d1) cs)"
    and c2: "columns d2 = add_column ''constraint'' (columns d1)"
    by (auto simp: set_column_Inr zip_map2 case_prod_unfold)
  from 3 have l3: "length pps = length (rows d2)"
    and r3: "rows d3 = map (\<lambda>t. (fst t)(''pull_prefit'' \<mapsto> Num (snd t))) (zip (rows d2) pps)"
    and c3: "columns d3 = add_column ''pull_prefit'' (columns d2)"
    by (auto simp: set_column_Inr zip_map2 case_prod_unfold)
  show "length ps = length (rows df)" by (rule l1)
  show "length cs = length (rows df)" using l2 r1 l1 by simp
  show "length pps = length (rows df)" using l3 r2 l2 r1 l1 by simp
  have "rows d3 = map (\<lambda>t. (fst (fst (fst t)))(''pull'' \<mapsto> Num (snd (fst (fst t))),
            ''constraint'' \<mapsto> Num (snd (fst t)), ''pull_prefit'' \<mapsto> Num (snd t)))
          (zip (zip (zip (rows df) ps) cs) pps)"
    by (simp add: r3 r2 r1 zip_map1 case_prod_unfold o_def)
  then show "rows df' = map (\<lambda>t. with_pulls rnd (fst (fst (fst t))) (snd (fst (fst t))) (snd (fst t)) (snd t))
                      (zip (zip (zip (rows df) ps) cs) pps)"
    unfolding 4 with_pulls_def newpull_of_def
    by (simp add: assign_def o_def numv_upd pull_chain)
  show "columns df' = add_column ''newpull'' (add_column ''newpull'' (add_column ''abspull''
            (add_column ''pull'' (add_column ''pull_prefit''
            (add_column ''constraint'' (add_column ''pull'' (columns df)))))))"
    unfolding 4 by (simp add: assign_def c3 c2 c1)
qed


lemma ungrouped_row_eq:
  "ungrouped_row rnd scale tr t =
     (with_pulls rnd [''impact'' \<mapsto> Num (fmul rnd (fst (fst (fst (fst t)))) scale),
                  ''label'' \<mapsto> Str (translate tr (snd (fst (fst (fst t))))),
                  ''absimpact'' \<mapsto> Num (fabs (fmul rnd (fst (fst (fst (fst t)))) scale))]
        (snd (fst (fst t))) (snd (fst t)) (snd t))
     (''impact_color'' \<mapsto>
        Str (if fpositive (fmul rnd (fst (fst (fst (fst t)))) scale) then ''#e41a1c'' else ''#377eb8''))"
  by (rule ext) (simp add: ungrouped_row_def with_pulls_def case_prod_unfold)

lemma strv_ungrouped_row [simp]:
  "strv (ungrouped_row rnd scale tr t) ''label'' = translate tr (snd (fst (fst (fst t))))"
  by (simp add: ungrouped_row_def case_prod_unfold strv_upd)

lemma numv_ungrouped_row_impact:
  "numv (ungrouped_row rnd scale tr t) ''impact'' = fmul rnd (fst (fst (fst (fst t)))) scale"
  by (simp add: ungrouped_row_def case_prod_unfold numv_upd)

lemma readFit_ungrouped:
  assumes "readFitInfoFromFile rnd rm rs tr gp impacts labels poi False grouping filters scale = Inr df"
    and fr: "filter_rows rm False grouping filters impacts labels = (xs, ls)"
    and gp: "gp ls = (ps, cs, pps)"
  shows "rows df =
           filter (\<lambda>r. \<not> (truthy poi \<and> rs (remove_all ''_noi'' (the poi)) (strv r ''label'')))
             (map (ungrouped_row rnd scale tr) (zip (zip (zip (zip xs ls) ps) cs) pps))"
    and "columns df = ungrouped_columns"
    and "length ls = length xs" and "length ps = length xs" and "length cs = length xs"
    and "length pps = length xs"
proof -
  let ?base = "\<lambda>t. [''impact'' \<mapsto> Num (fmul rnd (fst t) scale),
                     ''label'' \<mapsto> Str (translate tr (snd t)),
                     ''absimpact'' \<mapsto> Num (fabs (fmul rnd (fst t) scale))]"
  from assms(1) fr obtain d0 d2 where
    0: "set_column ''label'' (map (\<lambda>l. Str (translate tr l)) ls) (impact_frame rnd xs scale) = Inr d0"
    and 2: "add_pulls rnd gp ls (assign ''absimpact'' (\<lambda>r. Num (fabs (numv r ''impact''))) d0) = Inr d2"
    and 3: "df = add_colors False (if truthy poi then drop_poi rs (the poi) d2 else d2)"
    by (auto simp: readFitInfoFromFile_def bind_Inr_iff)
  from 0 have len: "length ls = length xs"
    and r0: "rows d0 = map (\<lambda>t. [''impact'' \<mapsto> Num (fmul rnd (fst t) scale),
                                  ''label'' \<mapsto> Str (translate tr (snd t))]) (zip xs ls)"
    and c0: "columns d0 = [''impact'', ''label'']"
    by (auto simp: set_column_Inr impact_frame_def zip_map1 zip_map2 case_prod_unfold
          add_column_def)
  let ?d1 = "assign ''absimpact'' (\<lambda>r. Num (fabs (numv r ''impact''))) d0"
  have r1: "rows ?d1 = map ?base (zip xs ls)"
    by (simp add: assign_def r0 o_def numv_upd)
  have c1: "columns ?d1 = [''impact'', ''label'', ''absimpact'']"
    by (simp add: assign_def c0 add_column_def)
  note P = add_pulls_Inr[OF 2 gp]
  show "length ls = length xs" by (rule len)
  show "length ps = length xs" using P(1) r1 len by simp
  show "length cs = length xs" using P(2) r1 len by simp
  show "length pps = length xs" using P(3) r1 len by simp
  have r2: "rows d2 = map (\<lambda>t. with_pulls rnd (?base (fst (fst (fst t)))) (snd (fst (fst t)))
                                 (snd (fst t)) (snd t))
                        (zip (zip (zip (zip xs ls) ps) cs) pps)"
    by (simp add: P(4) r1 zip_map1 case_prod_unfold o_def)
  have c2: "columns d2 = [''impact'', ''label'', ''absimpact'', ''pull'', ''constraint'',
                          ''pull_prefit'', ''abspull'', ''newpull'']"
    by (simp add: P(5) c1 add_column_def)
  have "columns (if truthy poi then drop_poi rs (the poi) d2 else d2) = columns d2"
    by (simp add: drop_poi_def)
  then have "columns df = add_column ''impact_color'' (columns d2)"
    by (simp add: 3 add_colors_def assign_def)
  then show "columns df = ungrouped_columns"
    by (simp add: c2 ungrouped_columns_def add_column_def)
  have lab: "\<And>t. strv (with_pulls rnd (?base (fst (fst (fst t)))) (snd (fst (fst t)))
                                 (snd (fst t)) (snd t)) ''label''
                 = translate tr (snd (fst (fst (fst t))))"
    by (simp add: with_pulls_def strv_upd)
  have imp: "\<And>t. numv (with_pulls rnd (?base (fst (fst (fst t)))) (snd (fst (fst t)))
                                 (snd (fst t)) (snd t)) ''impact''
                 = fmul rnd (fst (fst (fst (fst t)))) scale"
    by (simp add: with_pulls_def numv_upd)
  let ?W = "\<lambda>t. with_pulls rnd (?base (fst (fst (fst t)))) (snd (fst (fst t))) (snd (fst t)) (snd t)"
  let ?Z = "zip (zip (zip (zip xs ls) ps) cs) pps"
  let ?color = "\<lambda>r. r(''impact_color'' \<mapsto>
       Str (if \<not> False \<and> fpositive (numv r ''impact'') then ''#e41a1c'' else ''#377eb8''))"
  have U: "\<And>ys. map ?color (map ?W ys) = map (ungrouped_row rnd scale tr) ys"
    by (simp add: imp ungrouped_row_eq)
  have rdf: "rows df = map ?color (if truthy poi then rows (drop_poi rs (the poi) d2) else rows d2)"
    by (simp add: 3 add_colors_def assign_def)
  show "rows df =
           filter (\<lambda>r. \<not> (truthy poi \<and> rs (remove_all ''_noi'' (the poi)) (strv r ''label'')))
             (map (ungrouped_row rnd scale tr) ?Z)"
  proof (cases "truthy poi")
    case False
    then show ?thesis using U[of ?Z] by (simp add: rdf r2)
  next
    case True
    let ?Q = "\<lambda>t. \<not> rs (remove_all ''_noi'' (the poi)) (translate tr (snd (fst (fst (fst t)))))"
    have "rows df = map ?color (map ?W (filter ?Q ?Z))"
      using True by (simp add: rdf drop_poi_def r2 filter_map o_def lab)
    also have "\<dots> = map (ungrouped_row rnd scale tr) (filter ?Q ?Z)"
      by (rule U)
    also have "\<dots> = filter (\<lambda>r. \<not> (truthy poi \<and> rs (remove_all ''_noi'' (the poi)) (strv r ''label'')))
             (map (ungrouped_row rnd scale tr) ?Z)"
      using True by (simp add: filter_map o_def)
    finally show ?thesis .
  qed
qed

lemma keep_row_selected:
  "keep_row rm g grouping filters = (\<lambda>xl. selected rm g grouping filters (snd xl))"
  by (rule ext) (auto simp: keep_row_def selected_def list_ex_iff)

lemma filter_rows_zip:
  "zip (fst (filter_rows rm g grouping filters impacts labels))
       (snd (filter_rows rm g grouping filters impacts labels))
   = filter (\<lambda>xl. selected rm g grouping filters (snd xl)) (zip impacts labels)"
proof (cases "(g \<and> truthy grouping) \<or> filters \<noteq> []")
  case True
  then show ?thesis
    by (simp add: filter_rows_def Let_def zip_map_fst_snd keep_row_selected)
next
  case False
  then have sel: "\<And>l. selected rm g grouping filters l" by (auto simp: selected_def)
  from False have "filter_rows rm g grouping filters impacts labels = (impacts, labels)"
    by (auto simp: filter_rows_def)
  then show ?thesis by (simp add: sel)
qed

lemma grouped_row_fields:
  "grouped_row rnd scale tr xl ''impact'' = Some (Num (fmul rnd (fst xl) scale))"
  "grouped_row rnd scale tr xl ''absimpact'' = Some (Num (fabs (fmul rnd (fst xl) scale)))"
  "grouped_row rnd scale tr xl ''label'' = Some (Str (translate tr (snd xl)))"
  "grouped_row rnd scale tr xl ''impact_color'' = Some (Str ''#377eb8'')"
  by (simp_all add: grouped_row_def)

lemma ungrouped_row_fields:
  "ungrouped_row rnd scale tr ((((x, l), p), c), pp) ''impact'' = Some (Num (fmul rnd x scale))"
  "ungrouped_row rnd scale tr ((((x, l), p), c), pp) ''absimpact'' = Some (Num (fabs (fmul rnd x scale)))"
  "ungrouped_row rnd scale tr ((((x, l), p), c), pp) ''label'' = Some (Str (translate tr l))"
  "ungrouped_row rnd scale tr ((((x, l), p), c), pp) ''pull'' = Some (Num (fsub rnd p pp))"
  "ungrouped_row rnd scale tr ((((x, l), p), c), pp) ''constraint'' = Some (Num c)"
  "ungrouped_row rnd scale tr ((((x, l), p), c), pp) ''pull_prefit'' = Some (Num pp)"
  "ungrouped_row rnd scale tr ((((x, l), p), c), pp) ''abspull'' = Some (Num (fabs (fsub rnd p pp)))"
  "ungrouped_row rnd scale tr ((((x, l), p), c), pp) ''newpull'' = Some (Num (newpull_of rnd (fsub rnd p pp) c))"
  "ungrouped_row rnd scale tr ((((x, l), p), c), pp) ''impact_color'' =
     Some (Str (if fpositive (fmul rnd x scale) then ''#e41a1c'' else ''#377eb8''))"
  by (simp_all add: ungrouped_row_def)

lemma readFit_entries:
  assumes "readFitInfoFromFile rnd rm rs tr gp impacts labels poi grouped grouping filters scale = Inr df"
  shows "map (\<lambda>r. (r ''impact'', r ''absimpact'', r ''label'')) (rows df) =
         map (entry_cells rnd scale tr)
           (filter (\<lambda>xl. selected rm grouped grouping filters (snd xl) \<and>
                         \<not> poi_row rs tr poi grouped (snd xl))
              (zip impacts labels))"
proof (cases grouped)
  case True
  with assms have "rows df = map (grouped_row rnd scale tr)
      (filter (\<lambda>xl. selected rm grouped grouping filters (snd xl)) (zip impacts labels))"
    using readFit_grouped(1)[of rnd rm rs tr gp impacts labels poi grouping filters scale df]
    by (simp add: filter_rows_zip)
  with True show ?thesis
    by (simp add: poi_row_def grouped_row_fields entry_cells_def o_def)
next
  case False
  obtain xs ls where fr: "filter_rows rm False grouping filters impacts labels = (xs, ls)"
    by (cases "filter_rows rm False grouping filters impacts labels")
  obtain ps cs pps where gp: "gp ls = (ps, cs, pps)"
    by (cases "gp ls") auto
  from assms False
  have a: "readFitInfoFromFile rnd rm rs tr gp impacts labels poi False grouping filters scale = Inr df"
    by simp
  note R = readFit_ungrouped[OF a fr gp]
  let ?Z = "zip (zip (zip (zip xs ls) ps) cs) pps"
  let ?pi = "\<lambda>t::(((float64 \<times> string) \<times> float64) \<times> float64) \<times> float64. fst (fst (fst t))"
  have "map ?pi ?Z = map fst (map fst (map fst ?Z))"
    by (simp add: o_def)
  also have "map fst ?Z = zip (zip (zip xs ls) ps) cs"
    using R(3-6) by (simp add: map_fst_zip)
  also have "map fst (zip (zip (zip xs ls) ps) cs) = zip (zip xs ls) ps"
    using R(3-6) by (simp add: map_fst_zip)
  also have "map fst (zip (zip xs ls) ps) = zip xs ls"
    using R(3-6) by (simp add: map_fst_zip)
  finally have pi: "map ?pi ?Z = zip xs ls" .
  have zl: "zip xs ls = filter (\<lambda>xl. selected rm False grouping filters (snd xl)) (zip impacts labels)"
    using filter_rows_zip[of rm False grouping filters impacts labels] fr by simp
  let ?Q = "\<lambda>xl. \<not> poi_row rs tr poi False (snd xl)"
  have "rows df = map (ungrouped_row rnd scale tr) (filter (\<lambda>t. ?Q (?pi t)) ?Z)"
    by (simp add: R(1) filter_map o_def poi_row_def)
  then have "map (\<lambda>r. (r ''impact'', r ''absimpact'', r ''label'')) (rows df)
      = map (\<lambda>t. entry_cells rnd scale tr (?pi t)) (filter (\<lambda>t. ?Q (?pi t)) ?Z)"
    by (simp add: o_def entry_cells_def ungrouped_row_def case_prod_unfold)
  also have "\<dots> = map (entry_cells rnd scale tr) (filter ?Q (map ?pi ?Z))"
    by (simp add: filter_map o_def)
  also have "\<dots> = map (entry_cells rnd scale tr)
           (filter (\<lambda>xl. selected rm False grouping filters (snd xl) \<and> ?Q xl) (zip impacts labels))"
    by (simp only: pi) (simp add: zl)
  finally show ?thesis using False by simp
qed


lemma readFit_lengths:
  assumes "readFitInfoFromFile rnd rm rs tr gp impacts labels poi grouped grouping filters scale = Inr df"
  shows "length (snd (filter_rows rm grouped grouping filters impacts labels)) =
         length (fst (filter_rows rm grouped grouping filters impacts labels))"
proof (cases grouped)
  case True
  with assms show ?thesis
    using readFit_grouped(3)[of rnd rm rs tr gp impacts labels poi grouping filters scale df]
    by simp
next
  case False
  obtain xs ls where fr: "filter_rows rm False grouping filters impacts labels = (xs, ls)"
    by (cases "filter_rows rm False grouping filters impacts labels")
  obtain ps cs pps where gp: "gp ls = (ps, cs, pps)"
    by (cases "gp ls") auto
  from assms False
  have a: "readFitInfoFromFile rnd rm rs tr gp impacts labels poi False grouping filters scale = Inr df"
    by simp
  from readFit_ungrouped(3)[OF a fr gp] fr False show ?thesis by simp
qed

lemma readFit_unfiltered_lengths:
  assumes "readFitInfoFromFile rnd rm rs tr gp impacts labels poi grouped grouping [] scale = Inr df"
    and "\<not> (grouped \<and> truthy grouping)"
  shows "length labels = length impacts"
  using readFit_lengths[OF assms(1)] assms(2) by (auto simp: filter_rows_def)

lemma fdiv_special:
  assumes "a = PInf \<or> a = NInf \<or> a = NaN"
  shows "fdiv rnd a b = PInf \<or> fdiv rnd a b = NInf \<or> fdiv rnd a b = NaN"
  using assms by (cases b) (auto simp: inf_of_sign_def split: if_splits)

lemma fdiv_by_zero: "fdiv rnd a (Fin 0) = PInf \<or> fdiv rnd a (Fin 0) = NInf \<or> fdiv rnd a (Fin 0) = NaN"
  by (cases a) (auto simp: inf_of_sign_def)

lemma fdiv_by_nan [simp]: "fdiv rnd a NaN = NaN"
  by (cases a) simp_all

lemma replace_special:
  "x = PInf \<or> x = NInf \<or> x = NaN \<Longrightarrow> replace_inf_nan x = Fin 999"
  by (auto simp: replace_inf_nan_def)

lemma replace_finite: "\<exists>v. replace_inf_nan x = Fin v"
  by (cases x) (simp_all add: replace_inf_nan_def)

lemma replace_case: "replace_inf_nan x = (case x of Fin v \<Rightarrow> Fin v | _ \<Rightarrow> Fin 999)"
  by (cases x) (simp_all add: replace_inf_nan_def)

lemma newpull_of_claimed: "newpull_claimed rnd pull c (newpull_of rnd pull c)"
  unfolding newpull_claimed_def
proof (intro conjI allI impI)
  show "\<exists>v. newpull_of rnd pull c = Fin v"
    unfolding newpull_of_def by (rule replace_finite)
next
  fix q k s d t
  assume "pull = Fin q \<and> c = Fin k \<and> rnd (k * k) = Fin s \<and> rnd (1 - s) = Fin d \<and> 0 \<le> d \<and>
          rnd (sqrt d) = Fin t \<and> t \<noteq> 0"
  then show "newpull_of rnd pull c = (case rnd (q / t) of Fin v \<Rightarrow> Fin v | _ \<Rightarrow> Fin 999)"
    by (simp add: newpull_of_def fsquare_def fsub_def replace_case)
next
  fix k s d
  assume a: "c = Fin k \<and> rnd (k * k) = Fin s \<and> rnd (1 - s) = Fin d \<and>
             (d < 0 \<or> rnd (sqrt d) = Fin 0)"
  then have "fpow_half rnd (fsub rnd (Fin 1) (fsquare rnd c)) = NaN \<or>
             fpow_half rnd (fsub rnd (Fin 1) (fsquare rnd c)) = Fin 0"
    by (auto simp: fsquare_def fsub_def)
  then show "newpull_of rnd pull c = Fin 999"
    unfolding newpull_of_def using fdiv_by_zero[of rnd pull]
    by (auto intro!: replace_special)
next
  fix k assume "c = Fin k \<and> rnd (k * k) = PInf"
  then show "newpull_of rnd pull c = Fin 999"
    by (simp add: newpull_of_def fsquare_def fsub_def replace_special)
next
  assume "c = PInf \<or> c = NInf \<or> c = NaN"
  then show "newpull_of rnd pull c = Fin 999"
    by (auto simp: newpull_of_def fsquare_def fsub_def inf_of_sign_def replace_special)
next
  assume "pull = PInf \<or> pull = NInf \<or> pull = NaN"
  then show "newpull_of rnd pull c = Fin 999"
    unfolding newpull_of_def by (intro replace_special fdiv_special)
next
  assume "rnd 0 = Fin 0 \<and> rnd 1 = Fin 1 \<and> c = Fin 1"
  then have "fpow_half rnd (fsub rnd (Fin 1) (fsquare rnd c)) = Fin 0"
    by (simp add: fsquare_def fsub_def)
  then show "newpull_of rnd pull c = Fin 999"
    unfolding newpull_of_def using fdiv_by_zero[of rnd pull]
    by (auto intro!: replace_special)
qed

subsection \<open>Facts about the merge and the filling of missing values\<close>

lemma fillna_cell_idem [simp]: "fillna_cell v (fillna_cell v x) = fillna_cell v x"
  by (simp add: fillna_cell_def)

lemma fillna_column_rows:
  "rows (fillna_column c v df) =
     map (\<lambda>r c'. if c' = c then map_option (fillna_cell v) (r c') else r c') (rows df)"
  by (auto simp: fillna_column_def fun_eq_iff split: option.splits)

lemma fillna_column_columns [simp]: "columns (fillna_column c v df) = columns df"
  by (simp add: fillna_column_def)

lemma fold_fillna_columns [simp]:
  "columns (fold (\<lambda>c. fillna_column c (d c)) cs df) = columns df"
  by (induction cs arbitrary: df) simp_all

lemma fold_fillna_rows:
  "rows (fold (\<lambda>c. fillna_column c (d c)) cs df) =
     map (\<lambda>r c. if c \<in> set cs then map_option (fillna_cell (d c)) (r c) else r c) (rows df)"
proof (induction cs arbitrary: df)
  case Nil
  then show ?case by simp
next
  case (Cons a cs)
  have "(\<lambda>r c. if c \<in> set cs then map_option (fillna_cell (d c)) (r c) else r c) \<circ>
        (\<lambda>r c'. if c' = a then map_option (fillna_cell (d a)) (r c') else r c')
        = (\<lambda>r c. if c \<in> set (a # cs) then map_option (fillna_cell (d c)) (r c) else r c)"
    by (auto simp: fun_eq_iff option.map_comp o_def)
  then show ?case
    by (simp add: Cons.IH fillna_column_rows del: set_simps)
qed

lemma fill_defaults_rows:
  "rows (fill_defaults df) =
     map (\<lambda>r c. if c \<in> set (columns df) then map_option (fillna_cell (default_values c)) (r c)
                 else r c) (rows df)"
  by (simp add: fill_defaults_def fold_fillna_rows)

lemma fill_defaults_columns [simp]: "columns (fill_defaults df) = columns df"
  by (simp add: fill_defaults_def)

lemma fillna_all_rows:
  "rows (fillna_all v df) =
     map (\<lambda>r c. if c \<in> set (columns df) then map_option (fillna_cell v) (r c) else r c) (rows df)"
  by (simp add: fillna_all_def fold_fillna_rows)

lemma fillna_all_columns [simp]: "columns (fillna_all v df) = columns df"
  by (simp add: fillna_all_def)

lemma join_row_label [simp]: "join_row lc rc key l r ''label'' = Some (Str key)"
  by (simp add: join_row_def)









lemma builder_columns:
  assumes "readFitInfoFromFile rnd rm rs tr gp impacts labels poi grouped grouping filters scale = Inr d"
  shows "columns d = (if grouped then grouped_columns else ungrouped_columns)"
proof (cases grouped)
  case True
  with assms show ?thesis
    using readFit_grouped(2)[of rnd rm rs tr gp impacts labels poi grouping filters scale d] by simp
next
  case False
  obtain xs ls where fr: "filter_rows rm False grouping filters impacts labels = (xs, ls)"
    by (cases "filter_rows rm False grouping filters impacts labels")
  obtain ps cs pps where gp: "gp ls = (ps, cs, pps)"
    by (cases "gp ls") auto
  from assms False
  have a: "readFitInfoFromFile rnd rm rs tr gp impacts labels poi False grouping filters scale = Inr d"
    by simp
  from readFit_ungrouped(2)[OF a fr gp] False show ?thesis by simp
qed




lemma current_table_cases:
  assumes "current_table rnd rm rs tr fr a poi grouped grouping scale = Inr dc"
  obtains impacts labels g where
    "readFitInfoFromFile rnd rm rs tr (pulls_and_constraints fr) impacts labels poi
       (grouped \<and> arg_output_mode a = Some ''output'') g [] scale = Inr dc"
  using assms by (auto simp: current_table_def split: if_splits)


lemma merged_columns_of:
  assumes "merge_outer dc dr = Inr m"
  shows "columns m = merged_columns (columns dc) (columns dr)"
  using assms by (auto simp: merge_outer_def Let_def split: if_splits)










text \<open>The definitions that a call of the builder on concrete arrays is evaluated with.\<close>

lemmas builder_defs =
  readFitInfoFromFile_def filter_rows_def keep_row_def add_pulls_def set_column_def
  impact_frame_def assign_def add_colors_def drop_poi_def truthy_def members_def
  add_column_def literal_match_def numv_upd strv_upd translate_def remove_all.simps
  unit_pulls_def half_pulls_def replace_inf_nan_def fsub_def fsquare_def inf_of_sign_def
  exact_def

subsection \<open>The claims about the builder\<close>

text \<open>
  Claim C3, as amended. The labels of the table that the builder returns are, in the order
  of the input, the translations of the labels of exactly those entries that are selected
  (the label matches at least one of the filters when filters are given, and is a member
  of the grouping when the table is per group and a grouping is given) and that are not
  rows of the parameter of interest, which the ungrouped table drops. With no filters, no
  grouping and no such row, every entry is retained.
\<close>

theorem filter_retains_selected:
  assumes "readFitInfoFromFile rnd re_match re_search translate_label get_pulls impacts labels
             poi grouped grouping filters scale = Inr df"
  shows "label_column df =
           map (\<lambda>xl. translate translate_label (snd xl))
             (filter (\<lambda>xl. selected re_match grouped grouping filters (snd xl) \<and>
                           \<not> poi_row re_search translate_label poi grouped (snd xl))
                (zip impacts labels)) \<and>
         (filters = [] \<and> \<not> (grouped \<and> truthy grouping) \<and>
          (\<forall>l \<in> set labels. \<not> poi_row re_search translate_label poi grouped l) \<longrightarrow>
            label_column df = map (translate translate_label) labels)"
proof -
  let ?keep = "\<lambda>xl. selected re_match grouped grouping filters (snd xl) \<and>
                     \<not> poi_row re_search translate_label poi grouped (snd xl)"
  have "label_column df = map (\<lambda>c. case c of Some (Str s) \<Rightarrow> s | _ \<Rightarrow> [])
          (map (\<lambda>t. snd (snd t)) (map (\<lambda>r. (r ''impact'', r ''absimpact'', r ''label'')) (rows df)))"
    by (simp add: label_column_def strv_def o_def)
  then have 1: "label_column df =
      map (\<lambda>xl. translate translate_label (snd xl)) (filter ?keep (zip impacts labels))"
    unfolding readFit_entries[OF assms] by (simp add: o_def entry_cells_def)
  have 2: "label_column df = map (translate translate_label) labels"
    if f: "filters = []" and g: "\<not> (grouped \<and> truthy grouping)"
      and p: "\<forall>l \<in> set labels. \<not> poi_row re_search translate_label poi grouped l"
  proof -
    have len: "length labels = length impacts"
      using readFit_unfiltered_lengths[OF assms[unfolded f] g] .
    have "\<forall>xl \<in> set (zip impacts labels). ?keep xl"
      using f g p by (auto simp: selected_def dest: set_zip_rightD)
    then have "filter ?keep (zip impacts labels) = zip impacts labels"
      by (simp add: filter_id_conv)
    then have "label_column df = map (translate translate_label) (map snd (zip impacts labels))"
      using 1 by (simp add: o_def)
    then show ?thesis using len by (simp add: map_snd_zip)
  qed
  from 1 2 show ?thesis by blast
qed

theorem filter_retains_selected_witness:
  "\<not> isl (readFitInfoFromFile exact literal_match literal_search Map.empty unit_pulls
            [Fin 1, Fin 2, Fin 3] [''mass'', ''massShift'', ''pdf'']
            None False None [''mass''] (Fin 1)) \<and>
   label_column (projr (readFitInfoFromFile exact literal_match literal_search Map.empty unit_pulls
            [Fin 1, Fin 2, Fin 3] [''mass'', ''massShift'', ''pdf'']
            None False None [''mass''] (Fin 1))) = [''mass'', ''massShift'']"
proof -
  let ?E = "readFitInfoFromFile exact literal_match literal_search Map.empty unit_pulls
            [Fin 1, Fin 2, Fin 3] [''mass'', ''massShift'', ''pdf'']
            None False None [''mass''] (Fin 1)"
  obtain df where ok: "?E = Inr df"
    by (simp add: builder_defs)
  have "label_column df = [''mass'', ''massShift'']"
    using filter_retains_selected[OF ok]
    by (simp add: selected_def poi_row_def truthy_def literal_match_def translate_def)
  then show ?thesis by (simp add: ok)
qed

text \<open>
  The claim without the amendment fails: the label \<open>massShift\<close> matches the filter
  \<open>mass\<close>, and the ungrouped table for the parameter \<open>massShift_noi\<close> does not have it.
\<close>

theorem filter_counterexample:
  "map_sum id label_column
     (readFitInfoFromFile exact literal_match literal_search Map.empty unit_pulls
        [Fin 1, Fin 2, Fin 3] [''mass'', ''massShift'', ''pdf'']
        (Some ''massShift_noi'') False None [''mass''] (Fin 1)) = Inr [''mass''] \<and>
   literal_match ''mass'' ''massShift''"
  by (simp add: builder_defs label_column_def)


text \<open>
  Claim C8, as amended. The impact column of the table holds, in the order of the input,
  the raw impacts of the entries that the builder retains, each multiplied by the scale,
  and the column of absolute impacts their absolute values; when nothing is filtered out
  and no row of the parameter of interest is dropped, that is the whole raw array times
  the scale. For the impacts 1, -2 and 0.5 with the labels a, b, c and the scale 2 the
  columns are 2, -4, 1 and 2, 4, 1 (the witness below).
\<close>

theorem impact_column_scaled:
  assumes "readFitInfoFromFile rnd re_match re_search translate_label get_pulls impacts labels
             poi grouped grouping filters scale = Inr df"
  shows "column ''impact'' df =
           map (\<lambda>xl. Some (Num (fmul rnd (fst xl) scale)))
             (filter (\<lambda>xl. selected re_match grouped grouping filters (snd xl) \<and>
                           \<not> poi_row re_search translate_label poi grouped (snd xl))
                (zip impacts labels)) \<and>
         column ''absimpact'' df =
           map (\<lambda>xl. Some (Num (fabs (fmul rnd (fst xl) scale))))
             (filter (\<lambda>xl. selected re_match grouped grouping filters (snd xl) \<and>
                           \<not> poi_row re_search translate_label poi grouped (snd xl))
                (zip impacts labels)) \<and>
         (filters = [] \<and> \<not> (grouped \<and> truthy grouping) \<and>
          (\<forall>l \<in> set labels. \<not> poi_row re_search translate_label poi grouped l) \<longrightarrow>
            column ''impact'' df = map (\<lambda>x. Some (Num (fmul rnd x scale))) impacts \<and>
            column ''absimpact'' df = map (\<lambda>x. Some (Num (fabs (fmul rnd x scale)))) impacts)"
proof -
  let ?keep = "\<lambda>xl. selected re_match grouped grouping filters (snd xl) \<and>
                     \<not> poi_row re_search translate_label poi grouped (snd xl)"
  have "column ''impact'' df =
          map fst (map (\<lambda>r. (r ''impact'', r ''absimpact'', r ''label'')) (rows df))"
    by (simp add: column_def o_def)
  then have 1: "column ''impact'' df =
      map (\<lambda>xl. Some (Num (fmul rnd (fst xl) scale))) (filter ?keep (zip impacts labels))"
    unfolding readFit_entries[OF assms] by (simp add: o_def entry_cells_def)
  have "column ''absimpact'' df =
          map (\<lambda>t. fst (snd t)) (map (\<lambda>r. (r ''impact'', r ''absimpact'', r ''label'')) (rows df))"
    by (simp add: column_def o_def)
  then have 2: "column ''absimpact'' df =
      map (\<lambda>xl. Some (Num (fabs (fmul rnd (fst xl) scale)))) (filter ?keep (zip impacts labels))"
    unfolding readFit_entries[OF assms] by (simp add: o_def entry_cells_def)
  have 3: "column ''impact'' df = map (\<lambda>x. Some (Num (fmul rnd x scale))) impacts \<and>
           column ''absimpact'' df = map (\<lambda>x. Some (Num (fabs (fmul rnd x scale)))) impacts"
    if f: "filters = []" and g: "\<not> (grouped \<and> truthy grouping)"
      and p: "\<forall>l \<in> set labels. \<not> poi_row re_search translate_label poi grouped l"
  proof -
    have len: "length labels = length impacts"
      using readFit_unfiltered_lengths[OF assms[unfolded f] g] .
    have "\<forall>xl \<in> set (zip impacts labels). ?keep xl"
      using f g p by (auto simp: selected_def dest: set_zip_rightD)
    then have id: "filter ?keep (zip impacts labels) = zip impacts labels"
      by (simp add: filter_id_conv)
    have "map (\<lambda>xl. Some (Num (fmul rnd (fst xl) scale))) (zip impacts labels)
            = map (\<lambda>x. Some (Num (fmul rnd x scale))) (map fst (zip impacts labels))"
         "map (\<lambda>xl. Some (Num (fabs (fmul rnd (fst xl) scale)))) (zip impacts labels)
            = map (\<lambda>x. Some (Num (fabs (fmul rnd x scale)))) (map fst (zip impacts labels))"
      by (simp_all add: o_def)
    then show ?thesis using 1 2 id len by (simp add: map_fst_zip)
  qed
  from 1 2 3 show ?thesis by blast
qed

theorem impact_column_scaled_witness:
  "\<not> isl (readFitInfoFromFile exact literal_match literal_search Map.empty unit_pulls
            [Fin 1, Fin (- 2), Fin (1 / 2)] [''a'', ''b'', ''c''] None False None [] (Fin 2)) \<and>
   column ''impact'' (projr (readFitInfoFromFile exact literal_match literal_search Map.empty unit_pulls
            [Fin 1, Fin (- 2), Fin (1 / 2)] [''a'', ''b'', ''c''] None False None [] (Fin 2)))
     = [Some (Num (Fin 2)), Some (Num (Fin (- 4))), Some (Num (Fin 1))] \<and>
   column ''absimpact'' (projr (readFitInfoFromFile exact literal_match literal_search Map.empty unit_pulls
            [Fin 1, Fin (- 2), Fin (1 / 2)] [''a'', ''b'', ''c''] None False None [] (Fin 2)))
     = [Some (Num (Fin 2)), Some (Num (Fin 4)), Some (Num (Fin 1))]"
proof -
  let ?E = "readFitInfoFromFile exact literal_match literal_search Map.empty unit_pulls
            [Fin 1, Fin (- 2), Fin (1 / 2)] [''a'', ''b'', ''c''] None False None [] (Fin 2)"
  obtain df where ok: "?E = Inr df"
    by (simp add: builder_defs)
  have "column ''impact'' df = [Some (Num (Fin 2)), Some (Num (Fin (- 4))), Some (Num (Fin 1))] \<and>
        column ''absimpact'' df = [Some (Num (Fin 2)), Some (Num (Fin 4)), Some (Num (Fin 1))]"
    using impact_column_scaled[OF ok]
    by (simp add: selected_def poi_row_def truthy_def exact_def)
  then show ?thesis by (simp add: ok)
qed

text \<open>
  The claim without the amendment fails: for the same arrays, the ungrouped table for a
  parameter of interest \<open>b\<close> has two impacts, not the three of the raw array.
\<close>

theorem impact_column_counterexample:
  "map_sum id (column ''impact'')
     (readFitInfoFromFile exact literal_match literal_search Map.empty unit_pulls
        [Fin 1, Fin (- 2), Fin (1 / 2)] [''a'', ''b'', ''c'']
        (Some ''b'') False None [] (Fin 2)) = Inr [Some (Num (Fin 2)), Some (Num (Fin 1))]"
  by (simp add: builder_defs column_def)


text \<open>
  Claim C2. In the ungrouped table every row comes from one position of the arrays read:
  its pull is the raw pull minus the prefit pull (the rounded difference of two finite
  values), its constraint is the raw constraint, and its \<open>newpull\<close> is what the
  specification says: the pull divided by the square root of one minus the squared
  constraint, computed in doubles, and the sentinel 999 whenever that division yields an
  infinity or NaN, in particular for every row with the constraint 1. The stored value is
  never an infinity or NaN.
\<close>

theorem newpull_sentinel:
  assumes "readFitInfoFromFile rnd re_match re_search translate_label get_pulls impacts labels
             poi False grouping filters scale = Inr df"
    and "filter_rows re_match False grouping filters impacts labels = (xs, ls)"
    and "get_pulls ls = (pulls, constraints, prefit)"
  shows "\<forall>r \<in> set (rows df).
           \<exists>x l p c pp v.
             ((((x, l), p), c), pp) \<in> set (zip (zip (zip (zip xs ls) pulls) constraints) prefit) \<and>
             r ''label'' = Some (Str (translate translate_label l)) \<and>
             r ''pull'' = Some (Num (fsub rnd p pp)) \<and>
             (\<forall>a b. p = Fin a \<and> pp = Fin b \<longrightarrow> r ''pull'' = Some (Num (rnd (a - b)))) \<and>
             r ''constraint'' = Some (Num c) \<and>
             r ''newpull'' = Some (Num v) \<and>
             newpull_claimed rnd (fsub rnd p pp) c v"
proof
  fix r assume "r \<in> set (rows df)"
  then obtain t where t: "t \<in> set (zip (zip (zip (zip xs ls) pulls) constraints) prefit)"
    and r: "r = ungrouped_row rnd scale translate_label t"
    unfolding readFit_ungrouped(1)[OF assms] by auto
  obtain x l p c pp where tt: "t = ((((x, l), p), c), pp)"
    by (metis surj_pair)
  have 1: "r ''newpull'' = Some (Num (newpull_of rnd (fsub rnd p pp) c))"
    by (simp add: r tt ungrouped_row_fields)
  have 2: "\<forall>a b. p = Fin a \<and> pp = Fin b \<longrightarrow> r ''pull'' = Some (Num (rnd (a - b)))"
    by (simp add: r tt ungrouped_row_fields fsub_def)
  have 3: "r ''label'' = Some (Str (translate translate_label l))"
    "r ''pull'' = Some (Num (fsub rnd p pp))" "r ''constraint'' = Some (Num c)"
    by (simp_all add: r tt ungrouped_row_fields)
  show "\<exists>x l p c pp v.
             ((((x, l), p), c), pp) \<in> set (zip (zip (zip (zip xs ls) pulls) constraints) prefit) \<and>
             r ''label'' = Some (Str (translate translate_label l)) \<and>
             r ''pull'' = Some (Num (fsub rnd p pp)) \<and>
             (\<forall>a b. p = Fin a \<and> pp = Fin b \<longrightarrow> r ''pull'' = Some (Num (rnd (a - b)))) \<and>
             r ''constraint'' = Some (Num c) \<and>
             r ''newpull'' = Some (Num v) \<and>
             newpull_claimed rnd (fsub rnd p pp) c v"
    using t[unfolded tt] 1 2 3 newpull_of_claimed[of rnd "fsub rnd p pp" c]
    by (intro exI[of _ x] exI[of _ l] exI[of _ p] exI[of _ c] exI[of _ pp]
          exI[of _ "newpull_of rnd (fsub rnd p pp) c"]) blast
qed

theorem newpull_sentinel_witness:
  "column ''newpull'' (projr (readFitInfoFromFile exact literal_match literal_search Map.empty
            unit_pulls [Fin 1, Fin 2] [''a'', ''b''] None False None [] (Fin 1)))
     = [Some (Num (Fin 999)), Some (Num (Fin 999))] \<and>
   column ''newpull'' (projr (readFitInfoFromFile exact literal_match literal_search Map.empty
            half_pulls [Fin 1] [''a''] None False None [] (Fin 1)))
     = [Some (Num (Fin (1 / sqrt (3 / 4))))] \<and>
   column ''pull'' (projr (readFitInfoFromFile exact literal_match literal_search Map.empty
            half_pulls [Fin 1] [''a''] None False None [] (Fin 1)))
     = [Some (Num (Fin 1))]"
proof -
  let ?E = "readFitInfoFromFile exact literal_match literal_search Map.empty unit_pulls
            [Fin 1, Fin 2] [''a'', ''b''] None False None [] (Fin 1)"
  let ?F = "readFitInfoFromFile exact literal_match literal_search Map.empty half_pulls
            [Fin 1] [''a''] None False None [] (Fin 1)"
  obtain df where ok: "?E = Inr df"
    by (simp add: builder_defs)
  have fr: "filter_rows literal_match False None [] [Fin 1, Fin 2] [''a'', ''b'']
              = ([Fin 1, Fin 2], [''a'', ''b''])"
    by (simp add: filter_rows_def)
  have gp: "unit_pulls [''a'', ''b''] = ([Fin 1, Fin 1], [Fin 1, Fin 1], [Fin 0, Fin 0])"
    by (simp add: unit_pulls_def)
  have len: "length (rows df) = 2"
    using ok by (auto simp: builder_defs)
  have "\<forall>r \<in> set (rows df). r ''newpull'' = Some (Num (Fin 999))"
  proof
    fix r assume "r \<in> set (rows df)"
    with newpull_sentinel[OF ok fr gp] obtain x l p c pp v where
      mem: "((((x, l), p), c), pp) \<in>
              set (zip (zip (zip (zip [Fin 1, Fin 2] [''a'', ''b'']) [Fin 1, Fin 1])
                     [Fin 1, Fin 1]) [Fin 0, Fin 0])"
      and np: "r ''newpull'' = Some (Num v)"
      and cl: "newpull_claimed exact (fsub exact p pp) c v"
      by blast
    from mem have "c \<in> set [Fin 1, Fin 1]"
      by (meson set_zip_leftD set_zip_rightD)
    then have "c = Fin 1" by simp
    with cl have "v = Fin 999"
      by (simp add: newpull_claimed_def exact_def)
    with np show "r ''newpull'' = Some (Num (Fin 999))" by simp
  qed
  then have "\<forall>c \<in> set (column ''newpull'' df). c = Some (Num (Fin 999))"
    by (simp add: column_def)
  moreover have "length (column ''newpull'' df) = 2"
    using len by (simp add: column_def)
  ultimately have 1: "column ''newpull'' df = [Some (Num (Fin 999)), Some (Num (Fin 999))]"
    by (cases "column ''newpull'' df"; cases "tl (column ''newpull'' df)") auto
  obtain dg where okg: "?F = Inr dg"
    by (simp add: builder_defs)
  have frg: "filter_rows literal_match False None [] [Fin 1] [''a''] = ([Fin 1], [''a''])"
    by (simp add: filter_rows_def)
  have gpg: "half_pulls [''a''] = ([Fin 1], [Fin (1 / 2)], [Fin 0])"
    by (simp add: half_pulls_def)
  have leng: "length (rows dg) = 1"
    using okg by (auto simp: builder_defs)
  then obtain r where rg: "rows dg = [r]"
    by (cases "rows dg") auto
  with newpull_sentinel[OF okg frg gpg] obtain x l p c pp v where
    mem: "((((x, l), p), c), pp) \<in> set (zip (zip (zip (zip [Fin 1] [''a'']) [Fin 1])
                     [Fin (1 / 2)]) [Fin 0])"
    and pl: "\<forall>a b. p = Fin a \<and> pp = Fin b \<longrightarrow> r ''pull'' = Some (Num (exact (a - b)))"
    and np: "r ''newpull'' = Some (Num v)"
    and cl: "newpull_claimed exact (fsub exact p pp) c v"
    by auto
  from mem have pc: "p = Fin 1" "c = Fin (1 / 2)" "pp = Fin 0" by simp_all
  from pl pc have 2: "r ''pull'' = Some (Num (Fin 1))" by (simp add: exact_def)
  have q: "fsub exact p pp = Fin 1" by (simp add: pc fsub_def exact_def)
  from cl have "\<forall>q k s d t.
         fsub exact p pp = Fin q \<and> c = Fin k \<and> exact (k * k) = Fin s \<and>
         exact (1 - s) = Fin d \<and> 0 \<le> d \<and> exact (sqrt d) = Fin t \<and> t \<noteq> 0 \<longrightarrow>
           v = (case exact (q / t) of Fin v \<Rightarrow> Fin v | _ \<Rightarrow> Fin 999)"
    unfolding newpull_claimed_def by blast
  from this[rule_format, of 1 "1 / 2" "1 / 4" "3 / 4" "sqrt (3 / 4)"]
  have "v = Fin (1 / sqrt (3 / 4))"
    by (simp add: pc exact_def fsub_def)
  with np have 3: "r ''newpull'' = Some (Num (Fin (1 / sqrt (3 / 4))))" by simp
  from 1 2 3 show ?thesis by (simp add: ok okg column_def rg)
qed

text \<open>
  Claim C10. In the ungrouped table built for a parameter of interest, the label of every
  row is the translation of a label of the input, and no row has a label in which the
  name of the parameter, with \<^verbatim>\<open>_noi\<close> removed, is found.
\<close>

theorem poi_rows_dropped:
  assumes "readFitInfoFromFile rnd re_match re_search translate_label get_pulls impacts labels
             (Some poi) False grouping filters scale = Inr df"
    and "poi \<noteq> []"
  shows "\<forall>r \<in> set (rows df).
           (\<exists>l \<in> set labels. r ''label'' = Some (Str (translate translate_label l))) \<and>
           \<not> re_search (remove_all ''_noi'' poi) (strv r ''label'')"
proof
  fix r assume rin: "r \<in> set (rows df)"
  obtain xs ls where fr: "filter_rows re_match False grouping filters impacts labels = (xs, ls)"
    by (cases "filter_rows re_match False grouping filters impacts labels")
  obtain ps cs pps where gp: "get_pulls ls = (ps, cs, pps)"
    by (cases "get_pulls ls") auto
  note R = readFit_ungrouped[OF assms(1) fr gp]
  from rin obtain t where t: "t \<in> set (zip (zip (zip (zip xs ls) ps) cs) pps)"
    and r: "r = ungrouped_row rnd scale translate_label t"
    and nd: "\<not> re_search (remove_all ''_noi'' poi) (strv r ''label'')"
    unfolding R(1) using assms(2) by (auto simp: truthy_def)
  obtain x l p c pp where tt: "t = ((((x, l), p), c), pp)"
    by (metis surj_pair)
  have "(x, l) \<in> set (zip xs ls)"
    using t unfolding tt by (meson set_zip_leftD)
  then have "fst (fst (fst t)) \<in> set (zip xs ls)"
    by (simp add: tt)
  then have "fst (fst (fst t)) \<in> set (zip impacts labels)"
    using filter_rows_zip[of re_match False grouping filters impacts labels] fr
    by (metis filter_is_subset fst_conv snd_conv subsetD)
  then have "snd (fst (fst (fst t))) \<in> set labels"
    by (metis prod.collapse set_zip_rightD)
  moreover have "r ''label'' = Some (Str (translate translate_label (snd (fst (fst (fst t))))))"
    by (simp add: r ungrouped_row_def case_prod_unfold)
  ultimately show "(\<exists>l \<in> set labels. r ''label'' = Some (Str (translate translate_label l))) \<and>
           \<not> re_search (remove_all ''_noi'' poi) (strv r ''label'')"
    using nd by blast
qed

theorem poi_rows_dropped_witness:
  "\<not> isl (readFitInfoFromFile exact literal_match literal_search Map.empty unit_pulls
            [Fin 1, Fin 2] [''massShift'', ''pdf''] (Some ''massShift_noi'') False None []
            (Fin 1)) \<and>
   ''massShift_noi'' \<noteq> [] \<and>
   list_all (\<lambda>r. \<not> literal_search ''massShift'' (strv r ''label''))
     (rows (projr (readFitInfoFromFile exact literal_match literal_search Map.empty unit_pulls
            [Fin 1, Fin 2] [''massShift'', ''pdf''] (Some ''massShift_noi'') False None []
            (Fin 1)))) \<and>
   label_column (projr (readFitInfoFromFile exact literal_match literal_search Map.empty unit_pulls
            [Fin 1, Fin 2] [''massShift'', ''pdf''] (Some ''massShift_noi'') False None []
            (Fin 1))) = [''pdf'']"
proof -
  let ?E = "readFitInfoFromFile exact literal_match literal_search Map.empty unit_pulls
            [Fin 1, Fin 2] [''massShift'', ''pdf''] (Some ''massShift_noi'') False None []
            (Fin 1)"
  obtain df where ok: "?E = Inr df"
    by (simp add: builder_defs)
  have ne: "''massShift_noi'' \<noteq> []" by simp
  have rm: "remove_all ''_noi'' ''massShift_noi'' = ''massShift''"
    by (simp add: remove_all.simps)
  have "\<forall>r \<in> set (rows df). \<not> literal_search ''massShift'' (strv r ''label'')"
    using poi_rows_dropped[OF ok ne] unfolding rm by blast
  then have "list_all (\<lambda>r. \<not> literal_search ''massShift'' (strv r ''label'')) (rows df)"
    by (simp add: list_all_iff)
  moreover have "label_column df = [''pdf'']"
    using ok by (auto simp: builder_defs label_column_def)
  ultimately show ?thesis by (simp add: ok)
qed

subsection \<open>The claims about the merge with the reference\<close>

text \<open>The definitions that a call of the table pipeline on the examples is evaluated with.\<close>

lemmas table_defs =
  build_table_def current_table_def reference_table_def merge_outer_def
  example_fit_def example_ref_def example_args_def





subsection \<open>The claim about the channels\<close>

text \<open>The definitions that the scale of a concrete parameter of interest is evaluated with.\<close>

lemmas poi_defs =
  scale_and_title_def mev_scale_def contains_def poi_type_def last_segment_def
  starts_with_def truthy_def lumi_scale_def without_last_segment_def

text \<open>
  Claim C9, as amended. Take a parameter of interest of the type \<open>pmaskedexp\<close> or
  \<open>sumxsec\<close> whose name does not start with \<open>massShift\<close>, \<open>massDiff\<close> or \<open>width\<close>
  and for which the first lines of \<^verbatim>\<open>producePlots\<close> find a scale. With more than one
  channel \<^verbatim>\<open>producePlots\<close> ends in the \<^verbatim>\<open>NotImplementedError\<close> that names the channels.
  With exactly one channel, of the name \<open>chan_13TeV\<close> and with a luminosity that is not
  zero, no error is raised and the scale is \<open>1/(lumi*1000)\<close>.
\<close>

theorem lumi_channels:
  assumes "poi_type (Some poi) \<in> Some ` {''pmaskedexp'', ''sumxsec''}"
    and "\<not> prefix ''massShift'' poi" and "\<not> prefix ''massDiff'' poi" and "\<not> prefix ''width'' poi"
    and "mev_scale (Some poi) = Inr s"
  shows "(1 < length (channels fr) \<longrightarrow>
            producePlots rnd re_match re_search translate_label fr a (Some poi) grouped fr_ref grouping
              = Inl (NotImplementedError (map fst (channels fr)))) \<and>
         (channels fr = [(''chan_13TeV'', lumi)] \<and> lumi \<noteq> 0 \<longrightarrow>
            scale_and_title (channels fr) (Some poi)
              = Inr (Fin (1 / (lumi * 1000)), SigmaFidTitle (without_last_segment poi)))"
proof -
  have st: "scale_and_title ci (Some poi) =
          bind (lumi_scale ci) (\<lambda>scale. Inr (scale, SigmaFidTitle (without_last_segment poi)))" for ci
    using assms by (auto simp: scale_and_title_def starts_with_def)
  show ?thesis
    by (auto simp: producePlots_def st lumi_scale_def)
qed

theorem lumi_channels_witness:
  "producePlots exact literal_match literal_search Map.empty
     (example_fit\<lparr>channels := [(''chan_13TeV'', 2), (''chan_5TeV'', 1)]\<rparr>) example_args
     (Some ''W_sumxsec'') False None None
     = Inl (NotImplementedError [''chan_13TeV'', ''chan_5TeV'']) \<and>
   scale_and_title (channels example_fit) (Some ''W_sumxsec'')
     = Inr (Fin (1 / 2000), SigmaFidTitle ''W'')"
proof -
  have 1: "poi_type (Some ''W_sumxsec'') \<in> Some ` {''pmaskedexp'', ''sumxsec''}"
    by (simp add: poi_type_def truthy_def last_segment_def)
  have 2: "\<not> prefix ''massShift'' ''W_sumxsec''" "\<not> prefix ''massDiff'' ''W_sumxsec''"
    "\<not> prefix ''width'' ''W_sumxsec''"
    by simp_all
  have 3: "mev_scale (Some ''W_sumxsec'') = Inr (Fin 1)"
    by (simp add: mev_scale_def contains_def)
  note T = lumi_channels[OF 1 2 3]
  have a: "producePlots exact literal_match literal_search Map.empty
     (example_fit\<lparr>channels := [(''chan_13TeV'', 2), (''chan_5TeV'', 1)]\<rparr>) example_args
     (Some ''W_sumxsec'') False None None
     = Inl (NotImplementedError [''chan_13TeV'', ''chan_5TeV''])"
    using T[of "example_fit\<lparr>channels := [(''chan_13TeV'', 2), (''chan_5TeV'', 1)]\<rparr>"
        exact literal_match literal_search Map.empty example_args False None None]
    by simp
  have b: "scale_and_title (channels example_fit) (Some ''W_sumxsec'')
     = Inr (Fin (1 / 2000), SigmaFidTitle ''W'')"
    using T[of example_fit _ _ _ _ _ _ _ _ 2]
    by (simp add: example_fit_def without_last_segment_def)
  from a b show ?thesis by simp
qed

text \<open>
  The claim without the amendment fails: the luminosity is looked up under the name
  \<open>chan_13TeV\<close>, so a single channel of another name ends in a \<^verbatim>\<open>KeyError\<close>.
\<close>

theorem lumi_channel_counterexample:
  "producePlots exact literal_match literal_search Map.empty
     (example_fit\<lparr>channels := [(''chan_5TeV'', 2)]\<rparr>) example_args
     (Some ''W_sumxsec'') False None None = Inl (KeyError ''chan_13TeV'')"
  by (simp add: producePlots_def poi_defs)

subsection \<open>The claims about the sorting and the row limit\<close>

lemma build_table_has_label:
  assumes "build_table rnd rm rs tr fr fr_ref a poi grouped grouping scale = Inr df"
  shows "''label'' \<in> set (columns df)"
proof -
  from assms obtain dc where
    ct: "current_table rnd rm rs tr fr a poi grouped grouping scale = Inr dc"
    and sub: "set (columns dc) \<subseteq> set (columns df)"
    by (cases fr_ref)
       (auto simp: build_table_def bind_Inr_iff merged_columns_def dest!: merged_columns_of)
  from ct obtain impacts labels g where
    "readFitInfoFromFile rnd rm rs tr (pulls_and_constraints fr) impacts labels poi
       (grouped \<and> arg_output_mode a = Some ''output'') g [] scale = Inr dc"
    by (rule current_table_cases)
  from builder_columns[OF this] have "''label'' \<in> set (columns dc)"
    by (auto simp: grouped_columns_def ungrouped_columns_def split: if_splits)
  with sub show ?thesis by blast
qed

lemma assign_columns: "set (columns (assign c f df)) = insert c (set (columns df))"
  by (auto simp: assign_def add_column_def)

lemma sort_values_Inr:
  "sort_values c asc df = Inr df' \<longleftrightarrow>
     c \<in> set (columns df) \<and>
     df' = df\<lparr>rows := (if asc then sort_key (\<lambda>r. order_key (cellv r c)) (filter (\<lambda>r. \<not> isna c r) (rows df))
                        else rev (sort_key (\<lambda>r. order_key (cellv r c))
                                   (rev (filter (\<lambda>r. \<not> isna c r) (rows df)))))
                       @ filter (isna c) (rows df)\<rparr>"
  by (auto simp: sort_values_def has_column_def Let_def)

lemma add_sort_key_columns:
  assumes "add_sort_key rnd s asc df = Inr df'"
  shows "set (columns df) \<subseteq> set (columns df')"
  using assms
  by (auto simp: add_sort_key_def Let_def bind_Inr_iff assign_columns split: if_splits)

lemma sort_table_columns:
  assumes "sort_table rnd s asc df = Inr df'"
  shows "set (columns df) \<subseteq> set (columns df')"
proof (cases "s = []")
  case True
  with assms show ?thesis by (simp add: sort_table_def)
next
  case False
  with assms obtain d1 where 1: "add_sort_key rnd s asc df = Inr d1"
    and 2: "sort_values s asc d1 = Inr df'"
    by (auto simp: sort_table_def bind_Inr_iff)
  from 2 have "columns df' = columns d1" by (auto simp: sort_values_Inr)
  with add_sort_key_columns[OF 1] show ?thesis by simp
qed

lemma limit_rows_positive:
  assumes "0 < n" and "columns df \<noteq> []"
  shows "limit_rows (Some n) df =
           (if n < int (length (rows df))
            then df\<lparr>rows := drop (length (rows df) - nat n) (rows df)\<rparr> else df)"
proof -
  have "length (rows df) \<le> size_df df"
    using assms(2) by (cases "columns df") (simp_all add: size_df_def)
  then show ?thesis
    using assms(1) by (auto simp: limit_rows_def tail_rows_def)
qed

lemma cellv_upd: "cellv (r(c \<mapsto> v)) c' = (if c' = c then v else cellv r c')"
  by (simp add: cellv_def)

text \<open>The definitions that a call of \<^verbatim>\<open>producePlots\<close> on the examples is evaluated with.\<close>

lemmas plot_defs =
  producePlots_def sort_table_def add_sort_key_def sort_values_def has_column_def
  numeric_column_def is_num_def isna_def cellv_upd fillna_all_rows fill_defaults_rows
  fillna_cell_def limit_rows_def size_df_def tail_rows_def plotted_labels_def label_column_def
  suffix_to_prefix default_values_def strv_def

text \<open>
  Claim C5, as amended. In the output mode with a positive row limit \<open>n\<close>, the table is
  built, sorted and its missing values are filled, and then: when \<open>n\<close> is less than the
  number of its rows, the plotted table is that table cut to its last \<open>n\<close> rows; when
  \<open>n\<close> is at least the number of rows, the plotted table is that table unchanged.
\<close>

theorem row_limit:
  assumes "arg_output_mode a = Some ''output''" and "arg_num a = Some n" and "0 < n"
    and "producePlots rnd re_match re_search translate_label fr a poi grouped fr_ref grouping = Inr out"
  shows "\<exists>scale title built sorted.
           scale_and_title (channels fr) poi = Inr (scale, title) \<and>
           build_table rnd re_match re_search translate_label fr fr_ref a poi grouped grouping scale
             = Inr built \<and>
           sort_table rnd (arg_sort a) (arg_ascending a) built = Inr sorted \<and>
           (n < int (length (rows sorted)) \<longrightarrow>
              out = Plotted title
                      ((fillna_all (Num (Fin 0)) sorted)
                         \<lparr>rows := drop (length (rows sorted) - nat n)
                                    (rows (fillna_all (Num (Fin 0)) sorted))\<rparr>) \<and>
              length (drop (length (rows sorted) - nat n)
                        (rows (fillna_all (Num (Fin 0)) sorted))) = nat n) \<and>
           (int (length (rows sorted)) \<le> n \<longrightarrow>
              out = Plotted title (fillna_all (Num (Fin 0)) sorted))"
proof -
  from assms(4) obtain scale title built sorted where
    st: "scale_and_title (channels fr) poi = Inr (scale, title)"
    and bt: "build_table rnd re_match re_search translate_label fr fr_ref a poi grouped grouping scale
               = Inr built"
    and so: "sort_table rnd (arg_sort a) (arg_ascending a) built = Inr sorted"
    and out: "out = Plotted title (limit_rows (arg_num a) (fillna_all (Num (Fin 0)) sorted))"
    using assms(1)
    by (auto simp: producePlots_def bind_Inr_iff Let_def split: if_splits)
  let ?T = "fillna_all (Num (Fin 0)) sorted"
  have "''label'' \<in> set (columns sorted)"
    using build_table_has_label[OF bt] sort_table_columns[OF so] by blast
  then have ne: "columns ?T \<noteq> []" by auto
  have len: "length (rows ?T) = length (rows sorted)"
    by (simp add: fillna_all_rows)
  note L = limit_rows_positive[OF assms(3) ne, unfolded len]
  show ?thesis
    using st bt so out L assms(2,3) len by auto
qed

theorem row_limit_witness:
  "map_sum id plotted_labels
     (producePlots exact literal_match literal_search Map.empty example_fit
        (example_args\<lparr>arg_num := Some 2\<rparr>) None False None None)
   = Inr [''a'', ''b''] \<and>
   (\<exists>scale title built sorted.
           scale_and_title (channels example_fit) None = Inr (scale, title) \<and>
           build_table exact literal_match literal_search Map.empty example_fit None
             (example_args\<lparr>arg_num := Some 2\<rparr>) None False None scale = Inr built \<and>
           sort_table exact ''absimpact'' True built = Inr sorted \<and>
           length (rows sorted) = 3)"
proof -
  let ?a = "example_args\<lparr>arg_num := Some 2\<rparr>"
  let ?E = "producePlots exact literal_match literal_search Map.empty example_fit ?a None False None None"
  obtain out where ok: "?E = Inr out" and lab: "plotted_labels out = [''a'', ''b'']"
    by (simp add: plot_defs poi_defs table_defs builder_defs)
  have 1: "arg_output_mode ?a = Some ''output''" "arg_num ?a = Some 2" "(0::int) < 2"
    by (simp_all add: example_args_def)
  from row_limit[OF 1 ok] obtain scale title built sorted where
    st: "scale_and_title (channels example_fit) None = Inr (scale, title)"
    and bt: "build_table exact literal_match literal_search Map.empty example_fit None ?a None False None
               scale = Inr built"
    and so: "sort_table exact (arg_sort ?a) (arg_ascending ?a) built = Inr sorted"
    and lt: "2 < int (length (rows sorted)) \<longrightarrow>
              out = Plotted title
                      ((fillna_all (Num (Fin 0)) sorted)
                         \<lparr>rows := drop (length (rows sorted) - nat 2)
                                    (rows (fillna_all (Num (Fin 0)) sorted))\<rparr>) \<and>
              length (drop (length (rows sorted) - nat 2)
                        (rows (fillna_all (Num (Fin 0)) sorted))) = nat 2"
    and ge: "int (length (rows sorted)) \<le> 2 \<longrightarrow> out = Plotted title (fillna_all (Num (Fin 0)) sorted)"
    by blast
  have so': "sort_table exact ''absimpact'' True built = Inr sorted"
    using so by (simp add: example_args_def)
  have "length (rows sorted) = 3"
    using st bt so' by (auto simp: plot_defs poi_defs table_defs builder_defs)
  with st bt so' ok lab show ?thesis by auto
qed

text \<open>
  The claim without the amendment fails for the limit 0, which Python takes for no limit:
  all three rows are plotted, not the last none.
\<close>

theorem row_limit_counterexample:
  "map_sum id plotted_labels
     (producePlots exact literal_match literal_search Map.empty example_fit
        (example_args\<lparr>arg_num := Some 0\<rparr>) None False None None)
   = Inr [''c'', ''a'', ''b'']"
  by (simp add: plot_defs poi_defs table_defs builder_defs)

subsection \<open>The claims about the sort keys\<close>

lemma sorted_by_present:
  assumes "\<forall>r \<in> set xs. \<not> isna c r"
  shows "sorted_by c True (sort_key (\<lambda>r. order_key (cellv r c)) xs)"
    and "sorted_by c False (rev (sort_key (\<lambda>r. order_key (cellv r c)) (rev xs)))"
proof -
  let ?k = "\<lambda>r. order_key (cellv r c)"
  have "sorted (map ?k (sort_key ?k xs))" by (rule sorted_sort_key)
  then have 1: "sorted_wrt (\<lambda>r s. ?k r \<le> ?k s) (sort_key ?k xs)"
    by (simp add: sorted_map)
  have p: "\<forall>r \<in> set (sort_key ?k xs). \<not> isna c r" using assms by simp
  show "sorted_by c True (sort_key ?k xs)"
    unfolding sorted_by_def
    by (rule sorted_wrt_mono_rel[OF _ 1]) (use p in \<open>auto simp: before_def\<close>)
  have "sorted (map ?k (sort_key ?k (rev xs)))" by (rule sorted_sort_key)
  then have "sorted_wrt (\<lambda>r s. ?k r \<le> ?k s) (sort_key ?k (rev xs))"
    by (simp add: sorted_map)
  then have 2: "sorted_wrt (\<lambda>r s. ?k s \<le> ?k r) (rev (sort_key ?k (rev xs)))"
    by (simp add: sorted_wrt_rev)
  have q: "\<forall>r \<in> set (rev (sort_key ?k (rev xs))). \<not> isna c r" using assms by simp
  show "sorted_by c False (rev (sort_key ?k (rev xs)))"
    unfolding sorted_by_def
    by (rule sorted_wrt_mono_rel[OF _ 2]) (use q in \<open>auto simp: before_def\<close>)
qed

lemma sorted_by_append_missing:
  assumes "sorted_by c asc xs" and "\<forall>r \<in> set ys. isna c r"
  shows "sorted_by c asc (xs @ ys)"
proof -
  have "sorted_wrt (before c asc) ys"
    using assms(2) by (induction ys) (auto simp: before_def)
  with assms show ?thesis
    by (auto simp: sorted_by_def sorted_wrt_append before_def)
qed

lemma sort_values_sorted:
  assumes "sort_values c asc df = Inr df'"
  shows "sorted_by c asc (rows df')" and "mset (rows df') = mset (rows df)"
    and "columns df' = columns df"
proof -
  let ?k = "\<lambda>r. order_key (cellv r c)"
  let ?P = "filter (\<lambda>r. \<not> isna c r) (rows df)"
  let ?M = "filter (isna c) (rows df)"
  from assms have r: "rows df' = (if asc then sort_key ?k ?P else rev (sort_key ?k (rev ?P))) @ ?M"
    and c: "columns df' = columns df"
    by (auto simp: sort_values_Inr)
  show "columns df' = columns df" by (rule c)
  have "sorted_by c asc (if asc then sort_key ?k ?P else rev (sort_key ?k (rev ?P)))"
    using sorted_by_present[of ?P c] by auto
  then show "sorted_by c asc (rows df')"
    unfolding r by (rule sorted_by_append_missing) simp
  have "mset (rows df') = mset ?P + mset ?M"
    unfolding r by simp
  also have "\<dots> = mset (rows df)"
    by (simp add: union_commute)
  finally show "mset (rows df') = mset (rows df)" .
qed


lemma remove_suffixes:
  assumes "col \<in> {''pull'', ''abspull'', ''constraint'', ''absimpact''}"
  shows "remove_all ''_diff'' (col @ ''_diff'') = col"
    and "remove_all ''_both'' (col @ ''_both'') = col"
    and "suffix ''diff'' (col @ ''_diff'')" and "suffix ''both'' (col @ ''_both'')"
    and "\<not> suffix ''diff'' (col @ ''_both'')"
proof -
  from assms consider "col = ''pull''" | "col = ''abspull''" | "col = ''constraint''"
    | "col = ''absimpact''" by auto
  then show "remove_all ''_diff'' (col @ ''_diff'') = col"
    by cases (simp_all add: remove_all.simps)
  from assms consider "col = ''pull''" | "col = ''abspull''" | "col = ''constraint''"
    | "col = ''absimpact''" by auto
  then show "remove_all ''_both'' (col @ ''_both'') = col"
    by cases (simp_all add: remove_all.simps)
  show "suffix ''diff'' (col @ ''_diff'')"
    by (simp add: suffix_def exI[of _ "col @ ''_''"])
  show "suffix ''both'' (col @ ''_both'')"
    by (simp add: suffix_def exI[of _ "col @ ''_''"])
  show "\<not> suffix ''diff'' (col @ ''_both'')"
    by (simp add: suffix_to_prefix)
qed

lemma fabs_nonneg: "fle (Fin 0) (fabs z) \<or> fabs z = NaN"
  by (cases z) simp_all

lemma numeric_column_Inr:
  "numeric_column df c = Inr () \<longleftrightarrow> (\<forall>r \<in> set (rows df). is_num (r c))"
  by (simp add: numeric_column_def list_all_iff)

lemma is_num_numv: "is_num (r c) \<Longrightarrow> r c = Some (Num (numv r c))"
  by (auto simp: is_num_def numv_def split: option.splits cell.splits)


lemma add_sort_key_diff:
  assumes col: "col \<in> {''pull'', ''abspull'', ''constraint'', ''absimpact''}"
    and "col \<in> set (columns df)" and "col @ ''_ref'' \<in> set (columns df)"
    and "\<forall>r \<in> set (rows df). is_num (r col) \<and> is_num (r (col @ ''_ref''))"
  shows "add_sort_key rnd (col @ ''_diff'') asc df =
           Inr (assign (col @ ''_diff'')
                  (\<lambda>r. Num (fabs (fsub rnd (numv r col) (numv r (col @ ''_ref''))))) df)"
proof -
  have n: "numeric_column df col = Inr ()" "numeric_column df (col @ ''_ref'') = Inr ()"
    using assms(4) by (simp_all add: numeric_column_Inr)
  show ?thesis
    unfolding add_sort_key_def
    by (simp add: remove_suffixes[OF col] Let_def has_column_def assms(2,3) n)
qed

lemma add_sort_key_both:
  assumes col: "col \<in> {''pull'', ''abspull'', ''constraint'', ''absimpact''}"
    and "col \<in> set (columns df)" and "col @ ''_ref'' \<in> set (columns df)"
    and "\<forall>r \<in> set (rows df). is_num (r col) \<and> is_num (r (col @ ''_ref''))"
  shows "add_sort_key rnd (col @ ''_both'') asc df =
           Inr (assign (col @ ''_both'')
                  (\<lambda>r. Num ((if asc then fmax_skipna else fmin_skipna)
                               (numv r col) (numv r (col @ ''_ref'')))) df)"
proof -
  have n: "numeric_column df col = Inr ()" "numeric_column df (col @ ''_ref'') = Inr ()"
    using assms(4) by (simp_all add: numeric_column_Inr)
  show ?thesis
    unfolding add_sort_key_def
    by (simp add: remove_suffixes[OF col] Let_def has_column_def assms(2,3) n)
qed

lemma sorted_with_key:
  assumes "add_sort_key rnd key asc df = Inr (assign key f df)" and "key \<noteq> []"
  shows "\<exists>df'. sort_table rnd key asc df = Inr df' \<and>
           mset (rows df') = mset (map (\<lambda>r. r(key \<mapsto> f r)) (rows df)) \<and>
           sorted_by key asc (rows df')"
proof -
  have "key \<in> set (columns (assign key f df))"
    by (simp add: assign_columns)
  then obtain df' where sv: "sort_values key asc (assign key f df) = Inr df'"
    by (auto simp: sort_values_Inr)
  from sort_values_sorted(1,2)[OF sv] assms sv show ?thesis
    by (simp add: sort_table_def assign_def)
qed

lemma fmax_fin: "fmax_skipna (Fin u) (Fin v) = Fin (max u v)"
  and fmin_fin: "fmin_skipna (Fin u) (Fin v) = Fin (min u v)"
  by (auto simp: fmax_skipna_def fmin_skipna_def)

text \<open>The definitions that the merge and the sorting of the examples are evaluated with.\<close>

lemmas merge_defs =
  join_key_def join_row_def ref_entries_def ref_name_def missing_side_def merged_columns_def
  map_add_def

lemmas sort_eval_defs =
  sort_table_def add_sort_key_def sort_values_def has_column_def numeric_column_def is_num_def
  isna_def cellv_def numv_def strv_def assign_def add_column_def suffix_to_prefix
  remove_all.simps fsub_def fmax_skipna_def fmin_skipna_def Let_def

text \<open>The merged table of the two example fits, with the scale 1.\<close>

lemma example_merged:
  "\<exists>df. build_table exact literal_match literal_search Map.empty example_fit (Some example_ref)
          example_args None False None (Fin 1) = Inr df \<and>
        ''absimpact'' \<in> set (columns df) \<and> ''absimpact_ref'' \<in> set (columns df) \<and>
        list_all (\<lambda>r. is_num (r ''absimpact'') \<and> is_num (r ''absimpact_ref'')) (rows df) \<and>
        map (\<lambda>r. (strv r ''label'', r ''absimpact'', r ''absimpact_ref'')) (rows df) =
          [(''a'', Some (Num (Fin 1)), Some (Num (Fin 0))),
           (''b'', Some (Num (Fin 2)), Some (Num (Fin 5))),
           (''c'', Some (Num (Fin (1 / 2))), Some (Num (Fin 0))),
           (''d'', Some (Num (Fin 0)), Some (Num (Fin (1 / 4))))]"
  by (simp add: table_defs builder_defs merge_defs fill_defaults_rows fillna_cell_def
        default_values_def is_num_def strv_def)

text \<open>
  Claim C6, as amended. Let \<open>col\<close> be one of the numeric columns \<open>pull\<close>, \<open>abspull\<close>,
  \<open>constraint\<close> and \<open>absimpact\<close>, and let the table have the columns \<open>col\<close> and
  \<open>col_ref\<close>, with a number in both in every row, as the merged table of two fits that
  have \<open>col\<close> has. Then the sort mode \<open>col_diff\<close> raises no error; the resulting table
  has the rows of the input, each with the new column \<open>col_diff\<close> that holds the
  absolute value of the difference between \<open>col\<close> and \<open>col_ref\<close>; that value is never
  negative (it is NaN where the difference is undefined, as for two infinities); and the
  rows are sorted by \<open>col_diff\<close> in the direction asked for.
\<close>

theorem diff_sort_key:
  assumes "col \<in> {''pull'', ''abspull'', ''constraint'', ''absimpact''}"
    and "col \<in> set (columns df)" and "col @ ''_ref'' \<in> set (columns df)"
    and "\<forall>r \<in> set (rows df). is_num (r col) \<and> is_num (r (col @ ''_ref''))"
  shows "\<exists>df'. sort_table rnd (col @ ''_diff'') ascending df = Inr df' \<and>
           mset (rows df') =
             mset (map (\<lambda>r. r(col @ ''_diff'' \<mapsto>
                              Num (fabs (fsub rnd (numv r col) (numv r (col @ ''_ref''))))))
                       (rows df)) \<and>
           (\<forall>r \<in> set (rows df').
              \<exists>x y. r col = Some (Num x) \<and> r (col @ ''_ref'') = Some (Num y) \<and>
                    r (col @ ''_diff'') = Some (Num (fabs (fsub rnd x y))) \<and>
                    (fle (Fin 0) (fabs (fsub rnd x y)) \<or> fabs (fsub rnd x y) = NaN)) \<and>
           sorted_by (col @ ''_diff'') ascending (rows df')"
proof -
  let ?key = "col @ ''_diff''"
  let ?f = "\<lambda>r. Num (fabs (fsub rnd (numv r col) (numv r (col @ ''_ref''))))"
  from sorted_with_key[OF add_sort_key_diff[OF assms, of rnd ascending]]
  obtain df' where st: "sort_table rnd ?key ascending df = Inr df'"
    and ms: "mset (rows df') = mset (map (\<lambda>r. r(?key \<mapsto> ?f r)) (rows df))"
    and so: "sorted_by ?key ascending (rows df')"
    by auto
  have ne: "?key \<noteq> col" "?key \<noteq> col @ ''_ref''" by simp_all
  have "\<exists>x y. r col = Some (Num x) \<and> r (col @ ''_ref'') = Some (Num y) \<and>
                    r ?key = Some (Num (fabs (fsub rnd x y))) \<and>
                    (fle (Fin 0) (fabs (fsub rnd x y)) \<or> fabs (fsub rnd x y) = NaN)"
    if "r \<in> set (rows df')" for r
  proof -
    from that have "r \<in># mset (rows df')" by simp
    then obtain r0 where r0: "r0 \<in> set (rows df)" and r: "r = r0(?key \<mapsto> ?f r0)"
      unfolding ms by auto
    from r0 assms(4) have "r0 col = Some (Num (numv r0 col))"
      "r0 (col @ ''_ref'') = Some (Num (numv r0 (col @ ''_ref'')))"
      by (simp_all add: is_num_numv)
    then show ?thesis
      using fabs_nonneg[of "fsub rnd (numv r0 col) (numv r0 (col @ ''_ref''))"] ne
      by (intro exI[of _ "numv r0 col"] exI[of _ "numv r0 (col @ ''_ref'')"]) (simp add: r)
  qed
  with st ms so show ?thesis by blast
qed

theorem diff_sort_key_witness:
  "\<not> isl (build_table exact literal_match literal_search Map.empty example_fit (Some example_ref)
            example_args None False None (Fin 1)) \<and>
   map_sum id (\<lambda>d. map (\<lambda>r. (strv r ''label'', r ''absimpact_diff'')) (rows d))
     (sort_table exact ''absimpact_diff'' False
        (projr (build_table exact literal_match literal_search Map.empty example_fit (Some example_ref)
                  example_args None False None (Fin 1))))
     = Inr [(''b'', Some (Num (Fin 3))), (''a'', Some (Num (Fin 1))),
            (''c'', Some (Num (Fin (1 / 2)))), (''d'', Some (Num (Fin (1 / 4))))] \<and>
   sorted_by ''absimpact_diff'' False
     (rows (projr (sort_table exact ''absimpact_diff'' False
        (projr (build_table exact literal_match literal_search Map.empty example_fit (Some example_ref)
                  example_args None False None (Fin 1))))))"
proof -
  let ?B = "build_table exact literal_match literal_search Map.empty example_fit (Some example_ref)
              example_args None False None (Fin 1)"
  obtain df where bt: "?B = Inr df"
    and c: "''absimpact'' \<in> set (columns df)" "''absimpact'' @ ''_ref'' \<in> set (columns df)"
    and n: "list_all (\<lambda>r. is_num (r ''absimpact'') \<and> is_num (r ''absimpact_ref'')) (rows df)"
    using example_merged by auto
  have col: "''absimpact'' \<in> {''pull'', ''abspull'', ''constraint'', ''absimpact''}" by simp
  from n have n': "\<forall>r \<in> set (rows df). is_num (r ''absimpact'') \<and> is_num (r (''absimpact'' @ ''_ref''))"
    by (simp add: list_all_iff)
  from diff_sort_key[OF col c n', of exact False] obtain df' where
    st: "sort_table exact ''absimpact_diff'' False df = Inr df'"
    and so: "sorted_by ''absimpact_diff'' False (rows df')"
    by auto
  have "map_sum id (\<lambda>d. map (\<lambda>r. (strv r ''label'', r ''absimpact_diff'')) (rows d))
          (sort_table exact ''absimpact_diff'' False (projr ?B))
     = Inr [(''b'', Some (Num (Fin 3))), (''a'', Some (Num (Fin 1))),
            (''c'', Some (Num (Fin (1 / 2)))), (''d'', Some (Num (Fin (1 / 4))))]"
    by (simp add: table_defs builder_defs merge_defs fill_defaults_rows fillna_cell_def
          default_values_def sort_eval_defs)
  with st so bt show ?thesis by simp
qed

text \<open>
  The claim without the amendment fails: \<open>label_diff\<close> is a sort mode that the argument
  parser accepts, and the merged table has no column \<open>label_ref\<close>.
\<close>

theorem diff_sort_key_counterexample:
  "''label_diff'' \<in> set sort_choices \<and>
   producePlots exact literal_match literal_search Map.empty example_fit
     (example_args\<lparr>arg_sort := ''label_diff''\<rparr>) None False (Some example_ref) None
   = Inl (KeyError ''label_ref'')"
  by (simp add: producePlots_def poi_defs table_defs builder_defs merged_columns_def ref_name_def
        sort_table_def add_sort_key_def has_column_def Let_def suffix_to_prefix remove_all.simps
        sort_choices_def base_sort_choices_def)

text \<open>
  Claim C7, as amended. Under the same conditions on \<open>col\<close> and the table, the sort mode
  \<open>col_both\<close> raises no error; the resulting table has the rows of the input, each with
  the new column \<open>col_both\<close> that holds the maximum of \<open>col\<close> and \<open>col_ref\<close> when the
  order is ascending and their minimum when it is descending (a missing value is skipped);
  and the rows are sorted by \<open>col_both\<close> in the direction asked for.
\<close>

theorem both_sort_key:
  assumes "col \<in> {''pull'', ''abspull'', ''constraint'', ''absimpact''}"
    and "col \<in> set (columns df)" and "col @ ''_ref'' \<in> set (columns df)"
    and "\<forall>r \<in> set (rows df). is_num (r col) \<and> is_num (r (col @ ''_ref''))"
  shows "\<exists>df'. sort_table rnd (col @ ''_both'') ascending df = Inr df' \<and>
           mset (rows df') =
             mset (map (\<lambda>r. r(col @ ''_both'' \<mapsto>
                              Num ((if ascending then fmax_skipna else fmin_skipna)
                                     (numv r col) (numv r (col @ ''_ref'')))))
                       (rows df)) \<and>
           (\<forall>r \<in> set (rows df').
              \<exists>x y. r col = Some (Num x) \<and> r (col @ ''_ref'') = Some (Num y) \<and>
                    r (col @ ''_both'') =
                      Some (Num (if ascending then fmax_skipna x y else fmin_skipna x y)) \<and>
                    (\<forall>u v. x = Fin u \<and> y = Fin v \<longrightarrow>
                       r (col @ ''_both'') =
                         Some (Num (Fin (if ascending then max u v else min u v))))) \<and>
           sorted_by (col @ ''_both'') ascending (rows df')"
proof -
  let ?key = "col @ ''_both''"
  let ?f = "\<lambda>r. Num ((if ascending then fmax_skipna else fmin_skipna)
                       (numv r col) (numv r (col @ ''_ref'')))"
  from sorted_with_key[OF add_sort_key_both[OF assms, of rnd ascending]]
  obtain df' where st: "sort_table rnd ?key ascending df = Inr df'"
    and ms: "mset (rows df') = mset (map (\<lambda>r. r(?key \<mapsto> ?f r)) (rows df))"
    and so: "sorted_by ?key ascending (rows df')"
    by auto
  have ne: "?key \<noteq> col" "?key \<noteq> col @ ''_ref''" by simp_all
  have "\<exists>x y. r col = Some (Num x) \<and> r (col @ ''_ref'') = Some (Num y) \<and>
                    r ?key = Some (Num (if ascending then fmax_skipna x y else fmin_skipna x y)) \<and>
                    (\<forall>u v. x = Fin u \<and> y = Fin v \<longrightarrow>
                       r ?key = Some (Num (Fin (if ascending then max u v else min u v))))"
    if "r \<in> set (rows df')" for r
  proof -
    from that have "r \<in># mset (rows df')" by simp
    then obtain r0 where r0: "r0 \<in> set (rows df)" and r: "r = r0(?key \<mapsto> ?f r0)"
      unfolding ms by auto
    from r0 assms(4) have "r0 col = Some (Num (numv r0 col))"
      "r0 (col @ ''_ref'') = Some (Num (numv r0 (col @ ''_ref'')))"
      by (simp_all add: is_num_numv)
    then show ?thesis
      using ne
      by (intro exI[of _ "numv r0 col"] exI[of _ "numv r0 (col @ ''_ref'')"])
         (auto simp: r fmax_fin fmin_fin)
  qed
  with st ms so show ?thesis by blast
qed

theorem both_sort_key_witness:
  "\<not> isl (build_table exact literal_match literal_search Map.empty example_fit (Some example_ref)
            example_args None False None (Fin 1)) \<and>
   map_sum id (\<lambda>d. map (\<lambda>r. (strv r ''label'', r ''absimpact_both'')) (rows d))
     (sort_table exact ''absimpact_both'' True
        (projr (build_table exact literal_match literal_search Map.empty example_fit (Some example_ref)
                  example_args None False None (Fin 1))))
     = Inr [(''d'', Some (Num (Fin (1 / 4)))), (''c'', Some (Num (Fin (1 / 2)))),
            (''a'', Some (Num (Fin 1))), (''b'', Some (Num (Fin 5)))] \<and>
   sorted_by ''absimpact_both'' True
     (rows (projr (sort_table exact ''absimpact_both'' True
        (projr (build_table exact literal_match literal_search Map.empty example_fit (Some example_ref)
                  example_args None False None (Fin 1))))))"
proof -
  let ?B = "build_table exact literal_match literal_search Map.empty example_fit (Some example_ref)
              example_args None False None (Fin 1)"
  obtain df where bt: "?B = Inr df"
    and c: "''absimpact'' \<in> set (columns df)" "''absimpact'' @ ''_ref'' \<in> set (columns df)"
    and n: "list_all (\<lambda>r. is_num (r ''absimpact'') \<and> is_num (r ''absimpact_ref'')) (rows df)"
    using example_merged by auto
  have col: "''absimpact'' \<in> {''pull'', ''abspull'', ''constraint'', ''absimpact''}" by simp
  from n have n': "\<forall>r \<in> set (rows df). is_num (r ''absimpact'') \<and> is_num (r (''absimpact'' @ ''_ref''))"
    by (simp add: list_all_iff)
  from both_sort_key[OF col c n', of exact True] obtain df' where
    st: "sort_table exact ''absimpact_both'' True df = Inr df'"
    and so: "sorted_by ''absimpact_both'' True (rows df')"
    by auto
  have "map_sum id (\<lambda>d. map (\<lambda>r. (strv r ''label'', r ''absimpact_both'')) (rows d))
          (sort_table exact ''absimpact_both'' True (projr ?B))
     = Inr [(''d'', Some (Num (Fin (1 / 4)))), (''c'', Some (Num (Fin (1 / 2)))),
            (''a'', Some (Num (Fin 1))), (''b'', Some (Num (Fin 5)))]"
    by (simp add: table_defs builder_defs merge_defs fill_defaults_rows fillna_cell_def
          default_values_def sort_eval_defs)
  with st so bt show ?thesis by simp
qed

text \<open>
  The claim without the amendment fails: \<open>label_both\<close> is a sort mode that the argument
  parser accepts, and the merged table has no column \<open>label_ref\<close>.
\<close>

theorem both_sort_key_counterexample:
  "''label_both'' \<in> set sort_choices \<and>
   producePlots exact literal_match literal_search Map.empty example_fit
     (example_args\<lparr>arg_sort := ''label_both''\<rparr>) None False (Some example_ref) None
   = Inl (KeyError ''label_ref'')"
  by (simp add: producePlots_def poi_defs table_defs builder_defs merged_columns_def ref_name_def
        sort_table_def add_sort_key_def has_column_def Let_def suffix_to_prefix remove_all.simps
        sort_choices_def base_sort_choices_def)

end
